theory Spec2Isabelle
  imports Main "HOL-Library.Sublist" "HOL-Library.Word"
begin

section \<open>JavaScript strings\<close>

text \<open>
  A JavaScript string is a sequence of UTF-16 code units. String literals of the source
  are written with \<open>str\<close>, which maps every character of an ASCII literal to its code unit.
\<close>

type_synonym jsstring = "16 word list"

definition str :: "string \<Rightarrow> jsstring" where
  "str s = map of_char s"

definition nl :: "16 word" where
  "nl = 10"

text \<open>
  The code units that \<open>String.prototype.trim\<close> strips and that the regular-expression
  class \<open>\s\<close> matches: the WhiteSpace and LineTerminator productions of ECMAScript.
\<close>

definition isSpace :: "16 word \<Rightarrow> bool" where
  "isSpace c \<longleftrightarrow>
     c \<in> {0x09, 0x0A, 0x0B, 0x0C, 0x0D, 0x20, 0xA0, 0x1680, 0x2028, 0x2029, 0x202F,
          0x205F, 0x3000, 0xFEFF}
     \<or> (0x2000 \<le> c \<and> c \<le> 0x200A)"

text \<open>The regular-expression class \<open>\d\<close>: the ASCII digits.\<close>

definition isDigit :: "16 word \<Rightarrow> bool" where
  "isDigit c \<longleftrightarrow> 0x30 \<le> c \<and> c \<le> 0x39"

definition trim :: "jsstring \<Rightarrow> jsstring" where
  "trim s = rev (dropWhile isSpace (rev (dropWhile isSpace s)))"

definition startsWith :: "jsstring \<Rightarrow> jsstring \<Rightarrow> bool" where
  "startsWith s p = prefix p s"

text \<open>\<open>s.indexOf(sub)\<close>: the least position at which \<open>sub\<close> occurs in \<open>s\<close>, or -1.\<close>

fun indexOf :: "jsstring \<Rightarrow> jsstring \<Rightarrow> int" where
  "indexOf [] sub = (if sub = [] then 0 else - 1)"
| "indexOf (c # cs) sub =
     (if startsWith (c # cs) sub then 0
      else (let i = indexOf cs sub in if i = - 1 then - 1 else i + 1))"

text \<open>\<open>s.includes(sub)\<close>.\<close>

fun includesStr :: "jsstring \<Rightarrow> jsstring \<Rightarrow> bool" where
  "includesStr [] sub = (sub = [])"
| "includesStr (c # cs) sub = (startsWith (c # cs) sub \<or> includesStr cs sub)"

text \<open>\<open>s.substring(start)\<close>: a negative start counts as 0, one beyond the end gives the empty string.\<close>

definition substring :: "jsstring \<Rightarrow> int \<Rightarrow> jsstring" where
  "substring s start = drop (nat start) s"

section \<open>The date-range pattern of the merger\<close>

text \<open>
  \<open>newEntry.match(/###\s+(\d{2}\.\d{2}\.\d{4}\s*-\s*\d{2}\.\d{2}\.\d{4})/)\<close>.
  The matcher consumes the pattern piece by piece and returns the remaining input.
  Each greedy quantifier (\<open>\s+\<close>, \<open>\s*\<close>) is followed by a piece that no white-space
  code unit matches (a digit or the hyphen), so taking the longest run of white space is
  the only way the rest can match and the engine never backtracks into it.
\<close>

definition lit :: "jsstring \<Rightarrow> jsstring \<Rightarrow> jsstring option" where
  "lit p s = (if startsWith s p then Some (drop (length p) s) else None)"

fun digits :: "nat \<Rightarrow> jsstring \<Rightarrow> jsstring option" where
  "digits 0 s = Some s"
| "digits (Suc n) [] = None"
| "digits (Suc n) (c # cs) = (if isDigit c then digits n cs else None)"

definition spaces :: "jsstring \<Rightarrow> jsstring" where
  "spaces s = dropWhile isSpace s"

text \<open>\<open>\d{2}\.\d{2}\.\d{4}\<close>\<close>

definition datePat :: "jsstring \<Rightarrow> jsstring option" where
  "datePat s =
     (case digits 2 s of None \<Rightarrow> None | Some s1 \<Rightarrow>
      case lit (str ''.'') s1 of None \<Rightarrow> None | Some s2 \<Rightarrow>
      case digits 2 s2 of None \<Rightarrow> None | Some s3 \<Rightarrow>
      case lit (str ''.'') s3 of None \<Rightarrow> None | Some s4 \<Rightarrow>
      digits 4 s4)"

text \<open>The capture group \<open>\d{2}\.\d{2}\.\d{4}\s*-\s*\d{2}\.\d{2}\.\d{4}\<close>.\<close>

definition rangePat :: "jsstring \<Rightarrow> jsstring option" where
  "rangePat s =
     (case datePat s of None \<Rightarrow> None | Some s1 \<Rightarrow>
      case lit (str ''-'') (spaces s1) of None \<Rightarrow> None | Some s2 \<Rightarrow>
      datePat (spaces s2))"

text \<open>The whole pattern anchored at the start of \<open>s\<close>; the result is the text of group 1.\<close>

definition matchHere :: "jsstring \<Rightarrow> jsstring option" where
  "matchHere s =
     (case lit (str ''###'') s of None \<Rightarrow> None | Some s1 \<Rightarrow>
      (case s1 of [] \<Rightarrow> None | c # _ \<Rightarrow>
         if isSpace c then
           (let s2 = spaces s1 in
            case rangePat s2 of None \<Rightarrow> None
            | Some rest \<Rightarrow> Some (take (length s2 - length rest) s2))
         else None))"

text \<open>Without the \<open>g\<close> flag, \<open>match\<close> reports the leftmost position where the pattern matches.\<close>

fun dateRangeMatch :: "jsstring \<Rightarrow> jsstring option" where
  "dateRangeMatch [] = matchHere []"
| "dateRangeMatch (c # cs) =
     (case matchHere (c # cs) of Some g \<Rightarrow> Some g | None \<Rightarrow> dateRangeMatch cs)"

section \<open>The changelog merger\<close>

record mergeResult =
  content :: jsstring
  hasChanges :: bool

definition header :: "jsstring \<Rightarrow> jsstring" where
  "header repoName = str ''## '' @ repoName @ str '' - Changelog'' @ [nl, nl]"

definition updateChangelogFile :: "jsstring \<Rightarrow> jsstring \<Rightarrow> jsstring \<Rightarrow> mergeResult" where
  "updateChangelogFile newEntry repoName existingContent =
     (if (case dateRangeMatch newEntry of None \<Rightarrow> False
          | Some d \<Rightarrow> includesStr existingContent d)
      then \<lparr>content = existingContent, hasChanges = False\<rparr>
      else if trim existingContent = [] \<or> \<not> includesStr existingContent (trim (header repoName))
      then \<lparr>content = header repoName @ newEntry, hasChanges = True\<rparr>
      else
        (let headerIndex = indexOf existingContent (header repoName) in
         if headerIndex \<noteq> - 1
         then \<lparr>content = header repoName @ newEntry @ [nl, nl]
                  @ substring existingContent (headerIndex + int (length (header repoName))),
               hasChanges = True\<rparr>
         else \<lparr>content = header repoName @ newEntry @ [nl, nl] @ existingContent,
               hasChanges = True\<rparr>))"

section \<open>The summarizer's post-processing\<close>

text \<open>
  \<open>entry.replace(/\n{3,}/g, "\n\n")\<close>: scanning from the left, a position where at least
  three line feeds begin is replaced, with the whole run that begins there, by two line
  feeds, and the scan goes on behind the run; at any other position the code unit is kept.
\<close>

function collapseNewlines :: "jsstring \<Rightarrow> jsstring" where
  "collapseNewlines [] = []"
| "collapseNewlines (c # cs) =
     (let n = length (takeWhile (\<lambda>x. x = nl) (c # cs)) in
      if 3 \<le> n then nl # nl # collapseNewlines (drop n (c # cs))
      else c # collapseNewlines cs)"
  by pat_completeness auto
termination
  by (relation "measure length") auto

definition formatChangelogEntry :: "jsstring \<Rightarrow> jsstring \<Rightarrow> jsstring" where
  "formatChangelogEntry aiResponse repoName =
     (let entry = trim aiResponse;
          entry = (if \<not> startsWith entry (str ''###'') then str ''### '' @ entry else entry)
      in collapseNewlines entry)"

section \<open>Commits\<close>

text \<open>
  A value that may be \<open>undefined\<close> is an option. A string is falsy when it is \<open>undefined\<close>
  or empty; \<open>a || b\<close> is \<open>b\<close> when \<open>a\<close> is falsy.
\<close>

definition truthy :: "jsstring option \<Rightarrow> bool" where
  "truthy a = (case a of None \<Rightarrow> False | Some s \<Rightarrow> s \<noteq> [])"

definition orElse :: "jsstring option \<Rightarrow> jsstring option \<Rightarrow> jsstring option" where
  "orElse a b = (if truthy a then a else b)"

definition orDefault :: "jsstring option \<Rightarrow> jsstring \<Rightarrow> jsstring" where
  "orDefault a d = (case a of None \<Rightarrow> d | Some s \<Rightarrow> if s \<noteq> [] then s else d)"

text \<open>\<open>s.split(d)\<close> for a separator of one code unit; the result is never empty.\<close>

fun split :: "jsstring \<Rightarrow> 16 word \<Rightarrow> jsstring list" where
  "split [] d = [[]]"
| "split (c # cs) d =
     (if c = d then [] # split cs d
      else (case split cs d of [] \<Rightarrow> [[c]] | l # ls \<Rightarrow> (c # l) # ls))"

text \<open>\<open>xs[i]\<close> on an array: \<open>undefined\<close> beyond the end.\<close>

definition at :: "'a list \<Rightarrow> nat \<Rightarrow> 'a option" where
  "at xs i = (if i < length xs then Some (xs ! i) else None)"

text \<open>
  \<open>s.split(d)[0]\<close>: the array that \<open>split\<close> returns always has a first element.
\<close>

definition first :: "jsstring list \<Rightarrow> jsstring" where
  "first xs = (case at xs 0 of None \<Rightarrow> [] | Some x \<Rightarrow> x)"

text \<open>
  The fields of a commit of the hosting API's response that the code reads:
  \<open>commit.sha\<close>, \<open>commit.commit.message\<close>, \<open>commit.commit.author.name\<close>,
  \<open>commit.commit.author.date\<close> and \<open>commit.commit.committer.date\<close>.
\<close>

record rawCommit =
  raw_sha :: jsstring
  raw_message :: jsstring
  author_name :: "jsstring option"
  author_date :: "jsstring option"
  committer_date :: "jsstring option"

record commit =
  sha :: jsstring
  message :: jsstring
  date :: "jsstring option"
  author :: "jsstring option"

definition getCommitsForChangelog :: "rawCommit list \<Rightarrow> commit list" where
  "getCommitsForChangelog commits =
     map (\<lambda>c. \<lparr>sha = raw_sha c,
               message = first (split (raw_message c) nl),
               date = orElse (author_date c) (committer_date c),
               author = author_name c\<rparr>) commits"

section \<open>Errors, external calls and the trace of a run\<close>

text \<open>A thrown error: its \<open>status\<close> property (present on errors of the hosting API) and its message.\<close>

record jsError =
  err_status :: "int option"
  err_message :: jsstring

definition newError :: "string \<Rightarrow> jsError" where
  "newError m = \<lparr>err_status = None, err_message = str m\<rparr>"

text \<open>
  The requests to the two external services, with the arguments the code passes: owner and
  repository first (the components of \<open>GITHUB_REPOSITORY\<close>, the second \<open>undefined\<close>
  when there is no slash), then the other arguments in the order of the source; for the
  language model the key of the client, the model and the prompt.
\<close>

datatype request =
    ListCommits "jsstring option" "jsstring option" jsstring "int option"
  | GetContent "jsstring option" "jsstring option" jsstring jsstring
  | CreateOrUpdateFileContents "jsstring option" "jsstring option" jsstring jsstring jsstring
      jsstring "jsstring option"
  | GetRef "jsstring option" "jsstring option" jsstring
  | CreateRef "jsstring option" "jsstring option" jsstring jsstring
  | PullsCreate "jsstring option" "jsstring option" jsstring jsstring jsstring jsstring
  | GenerateContent jsstring jsstring jsstring

text \<open>The functions of the repository that \<open>run\<close> calls.\<close>

datatype invocation =
    GetRecentCommits
  | GetCommitsForChangelog
  | GenerateChangelogWithAI
  | FormatChangelogEntry
  | GetFileContent
  | UpdateChangelogFile jsstring jsstring jsstring
  | CreateBranch
  | UpdateOrCreateFile
  | CreatePR

text \<open>
  What a run does, in order: the functions \<open>run\<close> calls, the requests sent to the external
  services, and the calls of \<open>core.error\<close>, \<open>core.setOutput\<close> and \<open>core.setFailed\<close>.
  Console output is not recorded.
\<close>

datatype event =
    Invoke invocation
  | Request request
  | CoreError jsstring
  | SetOutput jsstring jsstring
  | SetFailed jsstring

type_synonym trace = "event list"

text \<open>
  An asynchronous function takes the trace so far and returns the value it resolves to,
  or the error it rejects with, and the extended trace.
\<close>

type_synonym 'a action = "trace \<Rightarrow> (jsError + 'a) \<times> trace"

definition ret :: "'a \<Rightarrow> 'a action" where
  "ret x t = (Inr x, t)"

definition throw :: "jsError \<Rightarrow> 'a action" where
  "throw e t = (Inl e, t)"

definition bind :: "'a action \<Rightarrow> ('a \<Rightarrow> 'b action) \<Rightarrow> 'b action" where
  "bind m f t = (case m t of (Inl e, t') \<Rightarrow> (Inl e, t') | (Inr x, t') \<Rightarrow> f x t')"

definition catch :: "'a action \<Rightarrow> (jsError \<Rightarrow> 'a action) \<Rightarrow> 'a action" where
  "catch m h t = (case m t of (Inl e, t') \<Rightarrow> h e t' | (Inr x, t') \<Rightarrow> (Inr x, t'))"

definition emit :: "event \<Rightarrow> unit action" where
  "emit ev t = (Inr (), t @ [ev])"

text \<open>
  A request is answered by the service; the answer may depend on everything that happened
  before, so the service is a function of the trace and the request.
\<close>

definition send :: "(trace \<Rightarrow> request \<Rightarrow> jsError + 'a) \<Rightarrow> request \<Rightarrow> 'a action" where
  "send service r t = (service t r, t @ [Request r])"

section \<open>The summarizer\<close>

definition promptIntro :: jsstring where
  \<open>promptIntro =
     concat
      [str ''\<newline>'',
       str ''        You are a technical writer creating a changelog entry for a software project.\<newline>'',
       str ''        Analyze the following commits and create a concise, professional changelog entry in Polish.\<newline>'',
       str ''\<newline>'',
       str ''        Commits to analyze:\<newline>'',
       str ''        '']\<close>

definition promptRequirements :: jsstring where
  \<open>promptRequirements =
     concat
      [str ''\<newline>'',
       str ''\<newline>'',
       str ''        Requirements:\<newline>'',
       str ''        1. Create a changelog entry in the following format:\<newline>'',
       str ''           ### '']\<close>

definition promptRules :: jsstring where
  \<open>promptRules =
     concat
      [str ''\<newline>'',
       str ''           \<newline>'',
       str ''           - Brief description of change 1\<newline>'',
       str ''           - Brief description of change 2\<newline>'',
       str ''           - Brief description of change 3\<newline>'',
       str ''\<newline>'',
       str ''        2. Group similar changes together\<newline>'',
       str ''        3. Use clear, concise language in Polish\<newline>'',
       str ''        4. Focus on user-visible changes and important technical improvements\<newline>'',
       str ''        5. Ignore trivial changes like typo fixes unless they are significant\<newline>'',
       str ''        6. Use bullet points starting with "- "\<newline>'',
       str ''        7. Each bullet point should be on a new line\<newline>'',
       str ''        8. Return ONLY the changelog entry (### date range and bullet points), nothing else\<newline>'',
       str ''        9. Do not include the repository name or any other headers\<newline>'',
       str ''\<newline>'',
       str ''        Example format:\<newline>'',
       str ''        ### 07.04.2025 - 14.04.2025\<newline>'',
       str ''\<newline>'',
       str ''        - Wdro'',
       [0x17C],
       str ''ono poprawki do styli na stronie g'',
       [0x142],
       [0xF3],
       str ''wnej\<newline>'',
       str ''        - Zaktualizowano zale'',
       [0x17C],
       str ''no'',
       [0x15B],
       str ''ci w package.json\<newline>'',
       str ''        - Wykonano modernizacj'',
       [0x119],
       str '' kodu client-side (jQuery -> Svelte)\<newline>'',
       str ''      '']\<close>


text \<open>
  \<open>xs.join("\n")\<close>
\<close>

fun join :: "jsstring list \<Rightarrow> jsstring \<Rightarrow> jsstring" where
  "join [] sep = []"
| "join [x] sep = x"
| "join (x # y # ys) sep = x @ sep @ join (y # ys) sep"

text \<open>
  \<open>toLocaleDateString\<close> stands for the platform's
  \<open>new Date(d).toLocaleDateString("pl-PL", {day: "2-digit", month: "2-digit", year: "numeric"})\<close>.
\<close>

definition commitsText :: "(jsstring option \<Rightarrow> jsstring) \<Rightarrow> commit list \<Rightarrow> jsstring" where
  "commitsText toLocaleDateString commits =
     join (map (\<lambda>commit. str ''- '' @ toLocaleDateString (date commit) @ str '': ''
                  @ message commit @ str '' ('' @ take 7 (sha commit) @ str '')'') commits)
       [nl]"

definition dateRange :: "(jsstring option \<Rightarrow> jsstring) \<Rightarrow> commit list \<Rightarrow> jsstring" where
  "dateRange toLocaleDateString commits =
     (let firstDate = date (commits ! (length commits - 1));
          lastDate = date (commits ! 0)
      in toLocaleDateString firstDate @ str '' - '' @ toLocaleDateString lastDate)"

definition prompt :: "jsstring \<Rightarrow> jsstring \<Rightarrow> jsstring" where
  "prompt commitsTxt dateRng =
     promptIntro @ commitsTxt @ promptRequirements @ dateRng @ promptRules"

text \<open>
  \<open>generateContent\<close> is the language-model service: it rejects, or resolves to a response
  whose \<open>text\<close> is a string or \<open>undefined\<close>. On \<open>undefined\<close> the call \<open>response.text.trim()\<close>
  throws a TypeError inside the \<open>try\<close> block; the message is the one of the V8 engine.
\<close>

definition trimOfUndefined :: jsError where
  "trimOfUndefined =
     \<lparr>err_status = None,
      err_message = str ''Cannot read properties of undefined (reading '' @ [0x27] @ str ''trim''
                      @ [0x27] @ str '')''\<rparr>"

text \<open>
  Both checks come before the client is built and the request is sent; the handler of the
  \<open>try\<close> block logs to the console and throws the error again.
\<close>

definition generateChangelogWithAI ::
  "(jsstring option \<Rightarrow> jsstring) \<Rightarrow> (trace \<Rightarrow> request \<Rightarrow> jsError + jsstring option) \<Rightarrow>
   commit list option \<Rightarrow> jsstring option \<Rightarrow> jsstring \<Rightarrow> jsstring action" where
  "generateChangelogWithAI toLocaleDateString generateContent commits apiKey repoName =
     (case commits of
        None \<Rightarrow> throw (newError ''No commits provided for changelog generation'')
      | Some cs \<Rightarrow>
          if length cs = 0 then throw (newError ''No commits provided for changelog generation'')
          else (case apiKey of
             None \<Rightarrow> throw (newError ''Google API key is required'')
           | Some key \<Rightarrow>
               if key = [] then throw (newError ''Google API key is required'')
               else
                 catch
                   (bind (send generateContent
                            (GenerateContent key (str ''gemini-2.0-flash'')
                               (prompt (commitsText toLocaleDateString cs)
                                  (dateRange toLocaleDateString cs))))
                      (\<lambda>text. case text of
                           None \<Rightarrow> throw trimOfUndefined
                         | Some s \<Rightarrow> ret (trim s)))
                   (\<lambda>error. throw error)))"

section \<open>The hosting API helpers\<close>

text \<open>What \<open>repos.getContent\<close> answers: a file with its base64 content and its sha, a
  directory listing (an array), or nothing.\<close>

datatype contentData = File jsstring jsstring | Directory | NoData

record pullRequest =
  number :: nat
  html_url :: jsstring

text \<open>
  The client of the hosting API and the language-model service. The token only selects
  the client and is not an argument of the requests.
\<close>

record services =
  listCommits :: "trace \<Rightarrow> request \<Rightarrow> jsError + rawCommit list"
  getContent :: "trace \<Rightarrow> request \<Rightarrow> jsError + contentData"
  createOrUpdateFileContents :: "trace \<Rightarrow> request \<Rightarrow> jsError + unit"
  getRef :: "trace \<Rightarrow> request \<Rightarrow> jsError + jsstring"
  createRef :: "trace \<Rightarrow> request \<Rightarrow> jsError + unit"
  pullsCreate :: "trace \<Rightarrow> request \<Rightarrow> jsError + pullRequest"
  generateContent :: "trace \<Rightarrow> request \<Rightarrow> jsError + jsstring option"

text \<open>
  The functions of the platform the code calls: the date formatter of the summarizer,
  \<open>parseInt(s, 10)\<close> (\<open>None\<close> for \<open>NaN\<close>), \<open>new Date().toISOString()\<close> at the time of the
  run, and the base64 coding of \<open>Buffer\<close>.
\<close>

record platform =
  toLocaleDateString :: "jsstring option \<Rightarrow> jsstring"
  parseInt :: "jsstring \<Rightarrow> int option"
  toISOString :: jsstring
  base64Encode :: "jsstring \<Rightarrow> jsstring"
  base64Decode :: "jsstring \<Rightarrow> jsstring"

record processEnv =
  GITHUB_TOKEN :: "jsstring option"
  GOOGLE_API_KEY :: "jsstring option"
  INPUT_COMMIT_COUNT :: "jsstring option"
  INPUT_BRANCH :: "jsstring option"
  GITHUB_BASE_REF :: "jsstring option"
  GITHUB_REPOSITORY :: "jsstring option"

definition getRepoInfo :: "processEnv \<Rightarrow> jsstring option \<times> jsstring option" where
  "getRepoInfo env =
     (let repository = orDefault (GITHUB_REPOSITORY env) [];
          parts = split repository (of_char CHR ''/'')
      in (at parts 0, at parts 1))"

definition coreError :: "string \<Rightarrow> jsError \<Rightarrow> unit action" where
  "coreError what error = emit (CoreError (str what @ err_message error))"

definition getRecentCommits ::
  "services \<Rightarrow> jsstring option \<Rightarrow> jsstring option \<Rightarrow> jsstring \<Rightarrow> int option \<Rightarrow>
   rawCommit list action" where
  "getRecentCommits sv owner repo sha' count =
     catch (send (listCommits sv) (ListCommits owner repo sha' count))
       (\<lambda>error. bind (coreError ''Error getting recent commits: '' error) (\<lambda>_. throw error))"

definition createPR ::
  "services \<Rightarrow> jsstring option \<Rightarrow> jsstring option \<Rightarrow> jsstring \<Rightarrow> jsstring \<Rightarrow> jsstring \<Rightarrow>
   jsstring \<Rightarrow> pullRequest action" where
  "createPR sv owner repo title body head base =
     catch (send (pullsCreate sv) (PullsCreate owner repo title body head base))
       (\<lambda>error. bind (coreError ''Error creating PR: '' error) (\<lambda>_. throw error))"

definition getFileContent ::
  "services \<Rightarrow> platform \<Rightarrow> jsstring option \<Rightarrow> jsstring option \<Rightarrow> jsstring \<Rightarrow> jsstring \<Rightarrow>
   jsstring option action" where
  "getFileContent sv pf owner repo path branch =
     catch
       (bind (send (getContent sv) (GetContent owner repo path branch))
          (\<lambda>data. case data of
               File encoded _ \<Rightarrow> ret (Some (base64Decode pf encoded))
             | _ \<Rightarrow> ret None))
       (\<lambda>error.
          if err_status error = Some 404 then ret None
          else bind (coreError ''Error getting file content: '' error) (\<lambda>_. throw error))"

definition updateOrCreateFile ::
  "services \<Rightarrow> platform \<Rightarrow> jsstring option \<Rightarrow> jsstring option \<Rightarrow> jsstring \<Rightarrow> jsstring \<Rightarrow>
   jsstring \<Rightarrow> jsstring \<Rightarrow> unit action" where
  "updateOrCreateFile sv pf owner repo path content' message' branch =
     catch
       (bind
          (catch
             (bind (send (getContent sv) (GetContent owner repo path branch))
                (\<lambda>data. case data of
                     File _ s \<Rightarrow> ret (Some s)
                   | _ \<Rightarrow> ret None))
             (\<lambda>error. ret None))
          (\<lambda>sha'.
             let encodedContent = base64Encode pf content' in
             send (createOrUpdateFileContents sv)
               (CreateOrUpdateFileContents owner repo path message' encodedContent branch sha')))
       (\<lambda>error. bind (coreError ''Error updating file: '' error) (\<lambda>_. throw error))"

definition createBranch ::
  "services \<Rightarrow> jsstring option \<Rightarrow> jsstring option \<Rightarrow> jsstring \<Rightarrow> jsstring \<Rightarrow>
   jsstring action" where
  "createBranch sv owner repo branchName baseBranch =
     catch
       (bind (send (getRef sv) (GetRef owner repo (str ''heads/'' @ baseBranch)))
          (\<lambda>baseRef.
             bind (send (createRef sv)
                     (CreateRef owner repo (str ''refs/heads/'' @ branchName) baseRef))
               (\<lambda>_. ret baseRef)))
       (\<lambda>error.
          if err_status error = Some 422
          then send (getRef sv) (GetRef owner repo (str ''heads/'' @ branchName))
          else bind (coreError ''Error creating branch: '' error) (\<lambda>_. throw error))"

section \<open>The run\<close>

text \<open>A number in a template literal: its decimal digits.\<close>

fun showNat :: "nat \<Rightarrow> jsstring" where
  "showNat n = (if n < 10 then [of_nat (48 + n)] else showNat (n div 10) @ [of_nat (48 + n mod 10)])"

text \<open>
  The repository name reaches the summarizer and the merger as \<open>run\<close> has it; the only use
  is in the template literal of the merger's header, which renders \<open>undefined\<close> as the
  text \<open>undefined\<close>.
\<close>

definition display :: "jsstring option \<Rightarrow> jsstring" where
  "display a = (case a of None \<Rightarrow> str ''undefined'' | Some s \<Rightarrow> s)"

definition call :: "invocation \<Rightarrow> 'a action \<Rightarrow> 'a action" where
  "call f m = bind (emit (Invoke f)) (\<lambda>_. m)"

text \<open>
  \<open>run\<close> catches every error and reports it with \<open>core.setFailed\<close>, so it always
  resolves; its result is the trace. Each call of a function of the repository is recorded
  where it is made.
\<close>

definition run :: "services \<Rightarrow> platform \<Rightarrow> processEnv \<Rightarrow> trace \<Rightarrow> trace" where
  "run sv pf env t =
     snd (catch
       (let githubToken = GITHUB_TOKEN env;
            googleApiKey = GOOGLE_API_KEY env;
            commitCount = parseInt pf (orDefault (INPUT_COMMIT_COUNT env) (str ''10''));
            targetBranch = orDefault (orElse (INPUT_BRANCH env) (GITHUB_BASE_REF env)) (str ''main'')
        in
        if \<not> truthy githubToken then throw (newError ''GITHUB_TOKEN is required'')
        else if \<not> truthy googleApiKey then throw (newError ''GOOGLE_API_KEY is required'')
        else
          (case getRepoInfo env of (owner, repo) \<Rightarrow>
           bind (call GetRecentCommits
                   (getRecentCommits sv owner repo targetBranch commitCount))
           (\<lambda>commits.
           if length commits = 0 then ret ()
           else
             bind (call GetCommitsForChangelog (ret (getCommitsForChangelog commits)))
             (\<lambda>formattedCommits.
             bind (call GenerateChangelogWithAI
                     (generateChangelogWithAI (toLocaleDateString pf) (generateContent sv)
                        (Some formattedCommits) googleApiKey (display repo)))
             (\<lambda>aiChangelog.
             bind (call FormatChangelogEntry
                     (ret (formatChangelogEntry aiChangelog (display repo))))
             (\<lambda>changelogEntry.
             bind (call GetFileContent
                     (getFileContent sv pf owner repo (str ''CHANGELOG.md'') targetBranch))
             (\<lambda>fileContent.
             let existingContent = orDefault fileContent [] in
             bind (call (UpdateChangelogFile changelogEntry (display repo) existingContent)
                     (ret (updateChangelogFile changelogEntry (display repo) existingContent)))
             (\<lambda>merged.
             if \<not> hasChanges merged then ret ()
             else
               (let branchName = str ''changelog/update-''
                      @ filter (\<lambda>c. c \<noteq> of_char CHR ''-'')
                          (first (split (toISOString pf) (of_char CHR ''T'')))
                in
                bind (call CreateBranch (createBranch sv owner repo branchName targetBranch))
                (\<lambda>_.
                bind (call UpdateOrCreateFile
                        (updateOrCreateFile sv pf owner repo (str ''CHANGELOG.md'')
                           (content merged)
                           (str ''chore: update CHANGELOG.md with recent changes'') branchName))
                (\<lambda>_.
                bind (call CreatePR
                        (createPR sv owner repo (str ''chore: Update CHANGELOG.md'')
                           (str ''This PR updates the CHANGELOG.md with recent changes analyzed by AI.''
                              @ [nl, nl] @ str ''Generated from the last ''
                              @ showNat (length commits) @ str '' commits.'')
                           branchName targetBranch))
                (\<lambda>pr.
                bind (emit (SetOutput (str ''pr_number'') (showNat (number pr))))
                (\<lambda>_. emit (SetOutput (str ''pr_url'') (html_url pr)))))))))))))))
       (\<lambda>error. emit (SetFailed (str ''Action failed with error: '' @ err_message error)))
       t)"


section \<open>Notions used to state the properties\<close>

text \<open>The header without its blank line: the line \<open>## <repoName> - Changelog\<close>.\<close>

definition headerLine :: "jsstring \<Rightarrow> jsstring" where
  "headerLine repoName = str ''## '' @ repoName @ str '' - Changelog''"

text \<open>
  A heading line of a document is a line that starts with the marker \<open>###\<close>, the test
  \<open>formatChangelogEntry\<close> applies to an entry; a document has unique headings when no two
  of its heading lines are equal.
\<close>

definition isHeading :: "jsstring \<Rightarrow> bool" where
  "isHeading l = startsWith l (str ''###'')"

definition headings :: "jsstring \<Rightarrow> jsstring list" where
  "headings doc = filter isHeading (split doc nl)"

definition uniqueHeadings :: "jsstring \<Rightarrow> bool" where
  "uniqueHeadings doc = distinct (headings doc)"

text \<open>The one request \<open>generateChangelogWithAI\<close> sends for the commits \<open>cs\<close> with the key \<open>key\<close>.\<close>

definition summarizerRequest :: "(jsstring option \<Rightarrow> jsstring) \<Rightarrow> commit list \<Rightarrow> jsstring \<Rightarrow> request" where
  "summarizerRequest fmt cs key =
     GenerateContent key (str ''gemini-2.0-flash'') (prompt (commitsText fmt cs) (dateRange fmt cs))"

section \<open>Example environments\<close>

text \<open>
  A formatter for the examples: what the platform's \<open>toLocaleDateString\<close> with the locale
  and the options of the summarizer gives in a process whose time zone is UTC, for a
  calendar date \<open>YYYY-MM-DD\<close> and for a UTC timestamp \<open>YYYY-MM-DDTHH:MM:SSZ\<close>, the form
  the hosting API uses, with a year from 1000 on, a month, a day of that month and, in a
  timestamp, an hour below 24, a minute and a second below 60. Every other string, which
  the platform may well parse, is not covered and is mapped to the text of an invalid
  date, as \<open>undefined\<close> is.
\<close>

definition decimal :: "jsstring \<Rightarrow> nat" where
  "decimal s = foldl (\<lambda>n c. 10 * n + (unat c - 48)) 0 s"

definition daysIn :: "nat \<Rightarrow> nat \<Rightarrow> nat" where
  "daysIn y m =
     (if m = 2 then (if y mod 4 = 0 \<and> (y mod 100 \<noteq> 0 \<or> y mod 400 = 0) then 29 else 28)
      else if m = 4 \<or> m = 6 \<or> m = 9 \<or> m = 11 then 30 else 31)"

definition isoTime :: "jsstring \<Rightarrow> bool" where
  "isoTime s \<longleftrightarrow>
     length s = 10
     \<and> s ! 0 = of_char CHR ''T''
     \<and> list_all isDigit (take 2 (drop 1 s)) \<and> decimal (take 2 (drop 1 s)) < 24
     \<and> s ! 3 = of_char CHR '':''
     \<and> list_all isDigit (take 2 (drop 4 s)) \<and> decimal (take 2 (drop 4 s)) < 60
     \<and> s ! 6 = of_char CHR '':''
     \<and> list_all isDigit (take 2 (drop 7 s)) \<and> decimal (take 2 (drop 7 s)) < 60
     \<and> s ! 9 = of_char CHR ''Z''"

definition isoDate :: "jsstring \<Rightarrow> bool" where
  "isoDate s \<longleftrightarrow>
     10 \<le> length s
     \<and> list_all isDigit (take 4 s) \<and> s ! 4 = of_char CHR ''-''
     \<and> list_all isDigit (take 2 (drop 5 s)) \<and> s ! 7 = of_char CHR ''-''
     \<and> list_all isDigit (take 2 (drop 8 s))
     \<and> 1000 \<le> decimal (take 4 s)
     \<and> 1 \<le> decimal (take 2 (drop 5 s)) \<and> decimal (take 2 (drop 5 s)) \<le> 12
     \<and> 1 \<le> decimal (take 2 (drop 8 s))
     \<and> decimal (take 2 (drop 8 s)) \<le> daysIn (decimal (take 4 s)) (decimal (take 2 (drop 5 s)))
     \<and> (length s = 10 \<or> isoTime (drop 10 s))"

definition utcLocaleDateString :: "jsstring option \<Rightarrow> jsstring" where
  "utcLocaleDateString d =
     (case d of
        None \<Rightarrow> str ''Invalid Date''
      | Some s \<Rightarrow>
          if isoDate s
          then take 2 (drop 8 s) @ str ''.'' @ take 2 (drop 5 s) @ str ''.'' @ take 4 s
          else str ''Invalid Date'')"

text \<open>
  A run for the repository \<open>o/demo\<close> on 8 January 2024 with the default count and
  branch. The base64 coding plays no role in the examples and is the identity.
\<close>

definition exampleEnv :: processEnv where
  "exampleEnv =
     \<lparr>GITHUB_TOKEN = Some (str ''token''), GOOGLE_API_KEY = Some (str ''key''),
      INPUT_COMMIT_COUNT = None, INPUT_BRANCH = None, GITHUB_BASE_REF = None,
      GITHUB_REPOSITORY = Some (str ''o/demo'')\<rparr>"

definition examplePlatform :: platform where
  "examplePlatform =
     \<lparr>toLocaleDateString = utcLocaleDateString,
      parseInt = (\<lambda>s. if s = str ''10'' then Some 10 else None),
      toISOString = str ''2024-01-08T06:00:00.000Z'',
      base64Encode = (\<lambda>s. s),
      base64Decode = (\<lambda>s. s)\<rparr>"

definition exampleCommit :: rawCommit where
  "exampleCommit =
     \<lparr>raw_sha = str ''0123456789abcdef'', raw_message = str ''fix bug\<newline>\<newline>details'',
      author_name = Some (str ''a''), author_date = Some (str ''2024-01-07T10:00:00Z''),
      committer_date = Some (str ''2024-01-07T11:00:00Z'')\<rparr>"

text \<open>
  The hosting API of the examples lists the given commits, has the given changelog on every
  branch, answers the creation of a ref as given, and has the base branch \<open>main\<close> at the
  commit \<open>aaa\<close> and every other branch at \<open>bbb\<close>; the language model answers with an entry
  for 7 January 2024.
\<close>

definition exampleServices :: "rawCommit list \<Rightarrow> jsstring \<Rightarrow> jsError + unit \<Rightarrow> services" where
  "exampleServices commits changelog created =
     \<lparr>listCommits = (\<lambda>t r. Inr commits),
      getContent = (\<lambda>t r. Inr (File changelog (str ''f00''))),
      createOrUpdateFileContents = (\<lambda>t r. Inr ()),
      getRef = (\<lambda>t r. Inr (if r = GetRef (Some (str ''o'')) (Some (str ''demo'')) (str ''heads/main'')
                            then str ''aaa'' else str ''bbb'')),
      createRef = (\<lambda>t r. created),
      pullsCreate = (\<lambda>t r. Inr \<lparr>number = 7, html_url = str ''pull/7''\<rparr>),
      generateContent =
        (\<lambda>t r. Inr (Some (str ''### 07.01.2024 - 07.01.2024\<newline>\<newline>- did stuff\<newline>'')))\<rparr>"

text \<open>The answer of the hosting API to the creation of a ref that exists, with a status.\<close>

definition refExists :: "int \<Rightarrow> jsError + unit" where
  "refExists code = Inl \<lparr>err_status = Some code, err_message = str ''Reference already exists''\<rparr>"

section \<open>Substrings\<close>

lemma includesStr_iff: "includesStr s sub \<longleftrightarrow> (\<exists>p q. s = p @ sub @ q)"
proof (induction s)
  case Nil
  then show ?case by auto
next
  case (Cons c cs)
  show ?case
  proof
    assume "includesStr (c # cs) sub"
    then consider "prefix sub (c # cs)" | "includesStr cs sub"
      by (auto simp: startsWith_def)
    then show "\<exists>p q. c # cs = p @ sub @ q"
    proof cases
      case 1
      then obtain q where "c # cs = sub @ q" by (auto simp: prefix_def)
      then have "c # cs = [] @ sub @ q" by simp
      then show ?thesis by blast
    next
      case 2
      with Cons obtain p q where "cs = p @ sub @ q" by blast
      then have "c # cs = (c # p) @ sub @ q" by simp
      then show ?thesis by blast
    qed
  next
    assume "\<exists>p q. c # cs = p @ sub @ q"
    then obtain p q where pq: "c # cs = p @ sub @ q" by blast
    show "includesStr (c # cs) sub"
    proof (cases p)
      case Nil
      with pq have "prefix sub (c # cs)" by (simp add: prefix_def)
      then show ?thesis by (simp add: startsWith_def)
    next
      case (Cons a p')
      with pq have "cs = p' @ sub @ q" by simp
      with Cons.IH have "includesStr cs sub" by blast
      then show ?thesis by simp
    qed
  qed
qed

lemma includesStr_trans:
  "includesStr a b \<Longrightarrow> includesStr b c \<Longrightarrow> includesStr a c"
proof -
  assume "includesStr a b" and "includesStr b c"
  then obtain p q p' q' where "a = p @ b @ q" and "b = p' @ c @ q'"
    unfolding includesStr_iff by blast
  then have "a = (p @ p') @ c @ (q' @ q)" by simp
  then show ?thesis unfolding includesStr_iff by blast
qed

lemma indexOf_none: "indexOf s sub = - 1 \<longleftrightarrow> \<not> includesStr s sub"
  and indexOf_nonneg: "- 1 \<le> indexOf s sub"
  by (induction s) (auto simp: Let_def)

lemma indexOf_first:
  assumes "s = p @ sub @ q"
    and "\<And>p' q'. s = p' @ sub @ q' \<Longrightarrow> length p \<le> length p'"
  shows "indexOf s sub = int (length p)"
  using assms
proof (induction s arbitrary: p)
  case Nil
  then show ?case by simp
next
  case (Cons c cs)
  show ?case
  proof (cases "startsWith (c # cs) sub")
    case True
    then obtain q' where "c # cs = [] @ sub @ q'" by (auto simp: startsWith_def prefix_def)
    from Cons.prems(2)[OF this] have "p = []" by simp
    with True show ?thesis by simp
  next
    case False
    with Cons.prems(1) have "p \<noteq> []" by (auto simp: startsWith_def prefix_def)
    then obtain p0 where p: "p = c # p0" using Cons.prems(1) by (cases p) auto
    with Cons.prems(1) have cs: "cs = p0 @ sub @ q" by simp
    have "length p0 \<le> length p'" if "cs = p' @ sub @ q'" for p' q'
    proof -
      from that have "c # cs = (c # p') @ sub @ q'" by simp
      from Cons.prems(2)[OF this] p show ?thesis by simp
    qed
    with Cons.IH[OF cs] have "indexOf cs sub = int (length p0)" by blast
    with False p show ?thesis by (simp add: Let_def)
  qed
qed

lemma indexOf_found:
  "indexOf s sub \<noteq> - 1 \<Longrightarrow> \<exists>p q. s = p @ sub @ q \<and> indexOf s sub = int (length p)"
proof (induction s)
  case Nil
  then have "[] = [] @ sub @ [] \<and> indexOf [] sub = int (length ([] :: jsstring))"
    by (simp split: if_splits)
  then show ?case by blast
next
  case (Cons c cs)
  show ?case
  proof (cases "startsWith (c # cs) sub")
    case True
    then obtain q where "c # cs = [] @ sub @ q" by (auto simp: startsWith_def prefix_def)
    moreover from True have "indexOf (c # cs) sub = int (length ([] :: jsstring))" by simp
    ultimately show ?thesis by blast
  next
    case False
    with Cons.prems have "indexOf cs sub \<noteq> - 1" by (auto simp: Let_def)
    with Cons.IH obtain p q where "cs = p @ sub @ q" and "indexOf cs sub = int (length p)"
      by blast
    with False have "c # cs = (c # p) @ sub @ q \<and> indexOf (c # cs) sub = int (length (c # p))"
      by (simp add: Let_def)
    then show ?thesis by blast
  qed
qed

section \<open>Trimming\<close>

lemma not_isSpace_hash: "\<not> isSpace (of_char CHR ''#'')"
  by (simp add: isSpace_def)

lemma not_isSpace_g: "\<not> isSpace (of_char CHR ''g'')"
  by (simp add: isSpace_def)

lemma isSpace_nl: "isSpace nl"
  by (simp add: isSpace_def nl_def)

lemma header_headerLine: "header repoName = headerLine repoName @ [nl, nl]"
  by (simp add: header_def headerLine_def)

lemma headerLine_first: "\<exists>r. headerLine repoName = of_char CHR ''#'' # r"
  by (simp add: headerLine_def str_def del: of_char_Char)

lemma headerLine_last: "\<exists>r. headerLine repoName = r @ [of_char CHR ''g'']"
proof -
  have "headerLine repoName = (str ''## '' @ repoName @ str '' - Changelo'') @ [of_char CHR ''g'']"
    by (simp add: headerLine_def str_def del: of_char_Char)
  then show ?thesis by blast
qed

lemma trim_header: "trim (header repoName) = headerLine repoName"
proof -
  obtain r where f: "headerLine repoName = of_char CHR ''#'' # r"
    using headerLine_first by blast
  obtain r' where l: "headerLine repoName = r' @ [of_char CHR ''g'']"
    using headerLine_last by blast
  have "dropWhile isSpace (header repoName) = header repoName"
    by (simp add: header_headerLine f not_isSpace_hash del: of_char_Char)
  moreover have "dropWhile isSpace (rev (header repoName)) = rev (headerLine repoName)"
    by (simp add: header_headerLine l isSpace_nl not_isSpace_g del: of_char_Char)
  ultimately show ?thesis by (simp add: trim_def)
qed

lemma all_dropWhile: "(\<forall>x\<in>set (dropWhile P s). P x) \<longleftrightarrow> (\<forall>x\<in>set s. P x)"
  by (induction s) auto

lemma trim_Nil_iff: "trim s = [] \<longleftrightarrow> (\<forall>c\<in>set s. isSpace c)"
  by (simp add: trim_def all_dropWhile)

section \<open>Splitting into lines\<close>

lemma split_nonempty: "split s d \<noteq> []"
  by (induction s) (auto split: list.splits)

lemma split_append: "split (a @ d # b) d = split a d @ split b d"
proof (induction a)
  case Nil
  then show ?case by simp
next
  case (Cons c a)
  obtain l ls where "split a d = l # ls"
    using split_nonempty by (cases "split a d") auto
  with Cons show ?case by simp
qed

lemma split_no_sep: "d \<notin> set s \<Longrightarrow> split s d = [s]"
  by (induction s) auto

lemma split_first: "\<exists>ls. split s d = takeWhile (\<lambda>c. c \<noteq> d) s # ls"
proof (induction s)
  case Nil
  then show ?case by simp
next
  case (Cons c cs)
  then obtain ls where "split cs d = takeWhile (\<lambda>c. c \<noteq> d) cs # ls" by blast
  then show ?case by simp
qed

lemma split_line_substring: "l \<in> set (split s d) \<Longrightarrow> \<exists>p q. s = p @ l @ q"
proof (induction s arbitrary: l)
  case Nil
  then show ?case by simp
next
  case (Cons c cs)
  show ?case
  proof (cases "c = d")
    case True
    with Cons.prems consider "l = []" | "l \<in> set (split cs d)" by auto
    then show ?thesis
    proof cases
      case 1
      then have "c # cs = [] @ l @ (c # cs)" by simp
      then show ?thesis by blast
    next
      case 2
      from Cons.IH[OF this] obtain p q where "cs = p @ l @ q" by blast
      then have "c # cs = (c # p) @ l @ q" by simp
      then show ?thesis by blast
    qed
  next
    case False
    obtain l0 ls where sp: "split cs d = l0 # ls"
      using split_nonempty by (cases "split cs d") auto
    with False Cons.prems consider "l = c # l0" | "l \<in> set (split cs d)" by auto
    then show ?thesis
    proof cases
      case 1
      from sp split_first[of cs d] have "l0 = takeWhile (\<lambda>c. c \<noteq> d) cs" by simp
      then have "cs = l0 @ dropWhile (\<lambda>c. c \<noteq> d) cs" by simp
      with 1 have "c # cs = [] @ l @ dropWhile (\<lambda>c. c \<noteq> d) cs" by simp
      then show ?thesis by blast
    next
      case 2
      from Cons.IH[OF this] obtain p q where "cs = p @ l @ q" by blast
      then have "c # cs = (c # p) @ l @ q" by simp
      then show ?thesis by blast
    qed
  qed
qed

section \<open>The merger returns a document that already has the date range\<close>

text \<open>
  C1. When the pattern finds a date range in the new entry and the existing document
  contains that date range as a substring, \<open>updateChangelogFile\<close> returns the existing
  document with \<open>hasChanges = False\<close>; feeding the returned content back any number of
  times gives the same answer.
\<close>

theorem merger_idempotent:
  assumes "dateRangeMatch newEntry = Some d" and "includesStr existingContent d"
  shows "updateChangelogFile newEntry repoName
           (((\<lambda>c. content (updateChangelogFile newEntry repoName c)) ^^ n) existingContent)
         = \<lparr>content = existingContent, hasChanges = False\<rparr>"
proof -
  have once: "updateChangelogFile newEntry repoName existingContent
              = \<lparr>content = existingContent, hasChanges = False\<rparr>"
    using assms by (simp add: updateChangelogFile_def)
  have "((\<lambda>c. content (updateChangelogFile newEntry repoName c)) ^^ n) existingContent
        = existingContent"
    by (induction n) (simp_all add: once)
  with once show ?thesis by simp
qed

text \<open>The theorem at an entry for the first week of 2024 and a document that has it.\<close>

theorem merger_idempotent_witness:
  "dateRangeMatch (str ''### 01.01.2024 - 07.01.2024\<newline>- did stuff'')
     = Some (str ''01.01.2024 - 07.01.2024'')
   \<and> includesStr (str ''## demo - Changelog\<newline>\<newline>### 01.01.2024 - 07.01.2024\<newline>- old\<newline>'')
        (str ''01.01.2024 - 07.01.2024'')
   \<and> updateChangelogFile (str ''### 01.01.2024 - 07.01.2024\<newline>- did stuff'') (str ''demo'')
        (((\<lambda>c. content (updateChangelogFile (str ''### 01.01.2024 - 07.01.2024\<newline>- did stuff'')
                          (str ''demo'') c)) ^^ 2)
           (str ''## demo - Changelog\<newline>\<newline>### 01.01.2024 - 07.01.2024\<newline>- old\<newline>''))
      = \<lparr>content = str ''## demo - Changelog\<newline>\<newline>### 01.01.2024 - 07.01.2024\<newline>- old\<newline>'',
         hasChanges = False\<rparr>"
proof -
  have m: "dateRangeMatch (str ''### 01.01.2024 - 07.01.2024\<newline>- did stuff'')
             = Some (str ''01.01.2024 - 07.01.2024'')"
    by code_simp
  have i: "includesStr (str ''## demo - Changelog\<newline>\<newline>### 01.01.2024 - 07.01.2024\<newline>- old\<newline>'')
             (str ''01.01.2024 - 07.01.2024'')"
    by code_simp
  from m i merger_idempotent [OF m i, of "str ''demo''" 2] show ?thesis by blast
qed

section \<open>The merger inserts behind the header\<close>

text \<open>
  C3. When the existing document contains the header (the line \<open>## <repoName> - Changelog\<close>
  and the blank line behind it), \<open>before\<close> being what precedes its first occurrence and
  \<open>after\<close> what follows it, and the date range of the new entry, if the pattern finds one,
  does not occur in the document, \<open>updateChangelogFile\<close> returns \<open>hasChanges = True\<close> and
  the header, the new entry, a blank line and \<open>after\<close>, unchanged.
\<close>

theorem merger_inserts_after_header:
  assumes ex: "existingContent = before @ header repoName @ after"
    and first: "\<And>b a. existingContent = b @ header repoName @ a \<Longrightarrow> length before \<le> length b"
    and absent: "case dateRangeMatch newEntry of None \<Rightarrow> True
                 | Some d \<Rightarrow> \<not> includesStr existingContent d"
  shows "updateChangelogFile newEntry repoName existingContent =
           \<lparr>content = header repoName @ newEntry @ [nl, nl] @ after, hasChanges = True\<rparr>"
proof -
  have guard: "\<not> (case dateRangeMatch newEntry of None \<Rightarrow> False
                   | Some d \<Rightarrow> includesStr existingContent d)"
    using absent by (simp split: option.splits)
  obtain r where "headerLine repoName = of_char CHR ''#'' # r"
    using headerLine_first by blast
  with ex have "of_char CHR ''#'' \<in> set existingContent"
    by (simp add: header_headerLine del: of_char_Char)
  with not_isSpace_hash have nonblank: "trim existingContent \<noteq> []"
    by (auto simp: trim_Nil_iff)
  have "existingContent = before @ headerLine repoName @ ([nl, nl] @ after)"
    using ex by (simp add: header_headerLine)
  then have line: "includesStr existingContent (trim (header repoName))"
    unfolding trim_header includesStr_iff by blast
  have idx: "indexOf existingContent (header repoName) = int (length before)"
    using indexOf_first[OF ex first] .
  have "substring existingContent (int (length before) + int (length (header repoName))) = after"
    by (simp add: substring_def ex nat_add_distrib)
  with guard nonblank line idx show ?thesis
    by (simp add: updateChangelogFile_def Let_def)
qed

text \<open>The example of the specification: the entry \<open>B\<close> is put in front of the entry \<open>A\<close>.\<close>

theorem merger_inserts_after_header_witness:
  "str ''## R - Changelog\<newline>\<newline>### A\<newline>- x\<newline>''
     = [] @ header (str ''R'') @ str ''### A\<newline>- x\<newline>''
   \<and> (case dateRangeMatch (str ''### B\<newline>- y'') of None \<Rightarrow> True
       | Some d \<Rightarrow> \<not> includesStr (str ''## R - Changelog\<newline>\<newline>### A\<newline>- x\<newline>'') d)
   \<and> updateChangelogFile (str ''### B\<newline>- y'') (str ''R'')
         (str ''## R - Changelog\<newline>\<newline>### A\<newline>- x\<newline>'')
       = \<lparr>content = str ''## R - Changelog\<newline>\<newline>### B\<newline>- y\<newline>\<newline>### A\<newline>- x\<newline>'',
          hasChanges = True\<rparr>"
proof -
  have ex: "str ''## R - Changelog\<newline>\<newline>### A\<newline>- x\<newline>''
              = [] @ header (str ''R'') @ str ''### A\<newline>- x\<newline>''"
    by code_simp
  have first: "length ([] :: jsstring) \<le> length b" for b :: jsstring
    by simp
  have absent: "case dateRangeMatch (str ''### B\<newline>- y'') of None \<Rightarrow> True
       | Some d \<Rightarrow> \<not> includesStr (str ''## R - Changelog\<newline>\<newline>### A\<newline>- x\<newline>'') d"
    by code_simp
  have res: "header (str ''R'') @ str ''### B\<newline>- y'' @ [nl, nl] @ str ''### A\<newline>- x\<newline>''
               = str ''## R - Changelog\<newline>\<newline>### B\<newline>- y\<newline>\<newline>### A\<newline>- x\<newline>''"
    by code_simp
  from merger_inserts_after_header [OF ex first absent] res
  have "updateChangelogFile (str ''### B\<newline>- y'') (str ''R'')
         (str ''## R - Changelog\<newline>\<newline>### A\<newline>- x\<newline>'')
       = \<lparr>content = str ''## R - Changelog\<newline>\<newline>### B\<newline>- y\<newline>\<newline>### A\<newline>- x\<newline>'',
          hasChanges = True\<rparr>"
    by simp
  with ex absent show ?thesis by simp
qed

section \<open>The merger starts a new document\<close>

text \<open>
  C4. When the date range of the new entry, if the pattern finds one, does not occur in
  the existing content, and the existing content is empty or consists of white space only,
  or does not contain the header text \<open>## <repoName> - Changelog\<close>, \<open>updateChangelogFile\<close>
  returns \<open>hasChanges = True\<close> and exactly the header followed by the new entry; nothing of
  the existing content is kept.
\<close>

theorem merger_creates_document:
  assumes absent: "case dateRangeMatch newEntry of None \<Rightarrow> True
                   | Some d \<Rightarrow> \<not> includesStr existingContent d"
    and fresh: "(\<forall>c\<in>set existingContent. isSpace c)
                \<or> \<not> includesStr existingContent (str ''## '' @ repoName @ str '' - Changelog'')"
  shows "updateChangelogFile newEntry repoName existingContent =
           \<lparr>content = str ''## '' @ repoName @ str '' - Changelog'' @ [nl, nl] @ newEntry,
            hasChanges = True\<rparr>"
proof -
  have guard: "\<not> (case dateRangeMatch newEntry of None \<Rightarrow> False
                   | Some d \<Rightarrow> includesStr existingContent d)"
    using absent by (simp split: option.splits)
  have "trim existingContent = [] \<or> \<not> includesStr existingContent (trim (header repoName))"
    using fresh by (simp add: trim_Nil_iff trim_header headerLine_def)
  with guard show ?thesis
    by (simp add: updateChangelogFile_def header_def)
qed

text \<open>The example of the specification: an empty document and the repository \<open>demo\<close>.\<close>

theorem merger_creates_document_witness:
  "(case dateRangeMatch (str ''### 01.01.2024 - 07.01.2024\<newline>- did stuff'') of None \<Rightarrow> True
    | Some d \<Rightarrow> \<not> includesStr [] d)
   \<and> updateChangelogFile (str ''### 01.01.2024 - 07.01.2024\<newline>- did stuff'') (str ''demo'') []
       = \<lparr>content = str ''## demo - Changelog\<newline>\<newline>### 01.01.2024 - 07.01.2024\<newline>- did stuff'',
          hasChanges = True\<rparr>"
proof -
  have absent: "case dateRangeMatch (str ''### 01.01.2024 - 07.01.2024\<newline>- did stuff'') of
                  None \<Rightarrow> True | Some d \<Rightarrow> \<not> includesStr [] d"
    by code_simp
  have fresh: "(\<forall>c\<in>set ([] :: jsstring). isSpace c)
       \<or> \<not> includesStr [] (str ''## '' @ str ''demo'' @ str '' - Changelog'')"
    by simp
  have res: "str ''## '' @ str ''demo'' @ str '' - Changelog'' @ [nl, nl]
               @ str ''### 01.01.2024 - 07.01.2024\<newline>- did stuff''
             = str ''## demo - Changelog\<newline>\<newline>### 01.01.2024 - 07.01.2024\<newline>- did stuff''"
    by code_simp
  from merger_creates_document [OF absent fresh] res absent show ?thesis by simp
qed

text \<open>
  The remaining case of the merger: the document has the line of the header but not the
  header with its blank line. The result is the header, the new entry, a blank line and
  the whole document.
\<close>

lemma merger_prepends_to_document:
  assumes absent: "case dateRangeMatch newEntry of None \<Rightarrow> True
                   | Some d \<Rightarrow> \<not> includesStr existingContent d"
    and line: "includesStr existingContent (headerLine repoName)"
    and noblank: "\<not> includesStr existingContent (header repoName)"
  shows "updateChangelogFile newEntry repoName existingContent =
           \<lparr>content = header repoName @ newEntry @ [nl, nl] @ existingContent, hasChanges = True\<rparr>"
proof -
  have guard: "\<not> (case dateRangeMatch newEntry of None \<Rightarrow> False
                   | Some d \<Rightarrow> includesStr existingContent d)"
    using absent by (simp split: option.splits)
  obtain r where "headerLine repoName = of_char CHR ''#'' # r"
    using headerLine_first by blast
  with line have "of_char CHR ''#'' \<in> set existingContent"
    unfolding includesStr_iff by (auto simp del: of_char_Char)
  with not_isSpace_hash have nonblank: "trim existingContent \<noteq> []"
    by (auto simp: trim_Nil_iff)
  from noblank have "indexOf existingContent (header repoName) = - 1"
    by (simp add: indexOf_none)
  with guard nonblank line show ?thesis
    by (simp add: updateChangelogFile_def trim_header)
qed

section \<open>Unique headings\<close>

lemma heading_is_substring: "h \<in> set (headings doc) \<Longrightarrow> includesStr doc h"
  unfolding headings_def includesStr_iff using split_line_substring[of h doc nl] by auto

lemma nil_not_heading: "\<not> isHeading []"
  by (simp add: isHeading_def startsWith_def str_def)

lemma headerLine_not_heading: "\<not> isHeading (headerLine repoName)"
  by (simp add: isHeading_def headerLine_def startsWith_def str_def)

lemma headings_header:
  assumes "nl \<notin> set repoName"
  shows "headings (header repoName @ rest) = headings rest"
proof -
  have "nl \<notin> set (headerLine repoName)"
    using assms by (auto simp: headerLine_def str_def nl_def)
  then have "split (headerLine repoName) nl = [headerLine repoName]"
    by (rule split_no_sep)
  moreover have "header repoName @ rest = headerLine repoName @ nl # ([] @ nl # rest)"
    by (simp add: header_headerLine)
  ultimately have "split (header repoName @ rest) nl = [headerLine repoName, []] @ split rest nl"
    by (simp only: split_append) simp
  then show ?thesis
    by (simp add: headings_def headerLine_not_heading nil_not_heading)
qed

lemma headings_entry_then:
  "headings (entry @ nl # nl # rest) = headings entry @ headings rest"
proof -
  have "entry @ nl # nl # rest = entry @ nl # ([] @ nl # rest)" by simp
  then have "split (entry @ nl # nl # rest) nl = split entry nl @ [[]] @ split rest nl"
    by (simp only: split_append) simp
  then show ?thesis
    by (simp add: headings_def nil_not_heading)
qed

lemma headings_suffix:
  "set (headings (a @ nl # b)) \<supseteq> set (headings b) \<and> (distinct (headings (a @ nl # b)) \<longrightarrow> distinct (headings b))"
  by (simp add: headings_def split_append)

text \<open>
  C2, as stated, fails: an entry whose heading the pattern does not match is inserted
  although the document already has an equal heading line.
\<close>

theorem merger_duplicates_unmatched_heading:
  "uniqueHeadings (str ''## R - Changelog\<newline>\<newline>### B\<newline>- y\<newline>'')
   \<and> \<not> uniqueHeadings (content (updateChangelogFile (str ''### B\<newline>- y'') (str ''R'')
          (str ''## R - Changelog\<newline>\<newline>### B\<newline>- y\<newline>'')))"
  by code_simp

text \<open>
  C2, amended. Let the pattern find a date range in the new entry, let the entry have
  exactly one heading line, and let the date range lie in that line; let the repository
  name have no line feed. Then a document with unique headings is merged into a document
  with unique headings.
\<close>

theorem merger_keeps_headings_unique:
  assumes m: "dateRangeMatch newEntry = Some d"
    and one: "headings newEntry = [h]"
    and inh: "includesStr h d"
    and repo: "nl \<notin> set repoName"
    and uniq: "uniqueHeadings existingContent"
  shows "uniqueHeadings (content (updateChangelogFile newEntry repoName existingContent))"
proof (cases "includesStr existingContent d")
  case True
  with m uniq show ?thesis by (simp add: updateChangelogFile_def)
next
  case False
  have fresh: "h \<notin> set (headings existingContent)"
  proof
    assume "h \<in> set (headings existingContent)"
    then have "includesStr existingContent h" by (rule heading_is_substring)
    then have "includesStr existingContent d" using inh by (rule includesStr_trans)
    with False show False by contradiction
  qed
  show ?thesis
  proof (cases "trim existingContent = [] \<or> \<not> includesStr existingContent (trim (header repoName))")
    case True
    with False m have "content (updateChangelogFile newEntry repoName existingContent)
                       = header repoName @ newEntry"
      by (simp add: updateChangelogFile_def)
    with one repo show ?thesis by (simp add: uniqueHeadings_def headings_header)
  next
    case nofresh: False
    show ?thesis
    proof (cases "indexOf existingContent (header repoName) = - 1")
      case True
      with False m nofresh have "content (updateChangelogFile newEntry repoName existingContent)
                       = header repoName @ newEntry @ [nl, nl] @ existingContent"
        by (simp add: updateChangelogFile_def Let_def)
      with one repo uniq fresh show ?thesis
        by (simp add: uniqueHeadings_def headings_header headings_entry_then)
    next
      case found: False
      from indexOf_found[OF found] obtain before after
        where ex: "existingContent = before @ header repoName @ after"
          and idx: "indexOf existingContent (header repoName) = int (length before)"
        by blast
      have "substring existingContent (int (length before) + int (length (header repoName)))
            = after"
        by (simp add: substring_def ex nat_add_distrib)
      with False m nofresh found idx
      have c: "content (updateChangelogFile newEntry repoName existingContent)
                       = header repoName @ newEntry @ [nl, nl] @ after"
        by (simp add: updateChangelogFile_def Let_def)
      have "existingContent = (before @ headerLine repoName @ [nl]) @ nl # after"
        using ex by (simp add: header_headerLine)
      then have "set (headings after) \<subseteq> set (headings existingContent)
                 \<and> (distinct (headings existingContent) \<longrightarrow> distinct (headings after))"
        using headings_suffix[of after "before @ headerLine repoName @ [nl]"] by simp
      then have "h \<notin> set (headings after)" and "distinct (headings after)"
        using fresh uniq by (auto simp: uniqueHeadings_def)
      with c one repo show ?thesis
        by (simp add: uniqueHeadings_def headings_header headings_entry_then)
    qed
  qed
qed

text \<open>The theorem at an entry for the first week of 2024 and a document with an older entry.\<close>

theorem merger_keeps_headings_unique_witness:
  "dateRangeMatch (str ''### 01.01.2024 - 07.01.2024\<newline>- did stuff'')
     = Some (str ''01.01.2024 - 07.01.2024'')
   \<and> headings (str ''### 01.01.2024 - 07.01.2024\<newline>- did stuff'')
       = [str ''### 01.01.2024 - 07.01.2024'']
   \<and> includesStr (str ''### 01.01.2024 - 07.01.2024'') (str ''01.01.2024 - 07.01.2024'')
   \<and> nl \<notin> set (str ''demo'')
   \<and> uniqueHeadings (str ''## demo - Changelog\<newline>\<newline>### 25.12.2023 - 31.12.2023\<newline>- old\<newline>'')
   \<and> uniqueHeadings (content (updateChangelogFile
         (str ''### 01.01.2024 - 07.01.2024\<newline>- did stuff'') (str ''demo'')
         (str ''## demo - Changelog\<newline>\<newline>### 25.12.2023 - 31.12.2023\<newline>- old\<newline>'')))"
proof -
  have m: "dateRangeMatch (str ''### 01.01.2024 - 07.01.2024\<newline>- did stuff'')
     = Some (str ''01.01.2024 - 07.01.2024'')"
    by code_simp
  have one: "headings (str ''### 01.01.2024 - 07.01.2024\<newline>- did stuff'')
       = [str ''### 01.01.2024 - 07.01.2024'']"
    by code_simp
  have inh: "includesStr (str ''### 01.01.2024 - 07.01.2024'') (str ''01.01.2024 - 07.01.2024'')"
    by code_simp
  have repo: "nl \<notin> set (str ''demo'')"
    by code_simp
  have uniq: "uniqueHeadings (str ''## demo - Changelog\<newline>\<newline>### 25.12.2023 - 31.12.2023\<newline>- old\<newline>'')"
    by code_simp
  from m one inh repo uniq merger_keeps_headings_unique [OF m one inh repo uniq]
  show ?thesis by blast
qed

section \<open>The date range of the summarizer\<close>

lemma promptRequirements_heading: "\<exists>p. promptRequirements = p @ str ''### ''"
proof -
  have "promptRequirements =
          concat [str ''\<newline>'', str ''\<newline>'', str ''        Requirements:\<newline>'',
                  str ''        1. Create a changelog entry in the following format:\<newline>'',
                  str ''           ''] @ str ''### ''"
    by code_simp
  then show ?thesis by blast
qed

text \<open>
  C5. For a non-empty list of commits, newest first, the date range is the formatted date
  of the last commit (the oldest), the text \<open> - \<close>, and the formatted date of the first
  commit (the newest); it is the range in the prompt of the request the summarizer sends,
  where it stands behind the marker of the heading asked for.
\<close>

theorem dateRange_oldest_to_newest:
  assumes "commits \<noteq> []"
  shows "dateRange fmt commits = fmt (date (last commits)) @ str '' - '' @ fmt (date (hd commits))
       \<and> summarizerRequest fmt commits key =
           GenerateContent key (str ''gemini-2.0-flash'')
             (prompt (commitsText fmt commits)
                (fmt (date (last commits)) @ str '' - '' @ fmt (date (hd commits))))
       \<and> (\<exists>p q. prompt (commitsText fmt commits)
                   (fmt (date (last commits)) @ str '' - '' @ fmt (date (hd commits)))
                 = p @ (str ''### '' @ fmt (date (last commits)) @ str '' - '' @ fmt (date (hd commits)))
                     @ q)"
proof -
  have r: "dateRange fmt commits = fmt (date (last commits)) @ str '' - '' @ fmt (date (hd commits))"
    using assms by (simp add: dateRange_def last_conv_nth hd_conv_nth)
  obtain p where p: "promptRequirements = p @ str ''### ''"
    using promptRequirements_heading by blast
  have "prompt x y = (promptIntro @ x @ p) @ (str ''### '' @ y) @ promptRules" for x y
    by (simp add: prompt_def p)
  then have inside: "\<exists>p q. prompt x y = p @ (str ''### '' @ y) @ q" for x y
    by blast
  have request: "summarizerRequest fmt commits key =
           GenerateContent key (str ''gemini-2.0-flash'')
             (prompt (commitsText fmt commits)
                (fmt (date (last commits)) @ str '' - '' @ fmt (date (hd commits))))"
    by (simp add: summarizerRequest_def r)
  from r request inside show ?thesis by (intro conjI)
qed

text \<open>The example of the specification: commits of 7 and 1 January 2024.\<close>

theorem dateRange_oldest_to_newest_witness:
  "[\<lparr>sha = [], message = str ''fix bug'', date = Some (str ''2024-01-07''), author = None\<rparr>,
    \<lparr>sha = [], message = str ''add feature'', date = Some (str ''2024-01-01''), author = None\<rparr>]
     \<noteq> []
   \<and> dateRange utcLocaleDateString
        [\<lparr>sha = [], message = str ''fix bug'', date = Some (str ''2024-01-07''), author = None\<rparr>,
         \<lparr>sha = [], message = str ''add feature'', date = Some (str ''2024-01-01''), author = None\<rparr>]
       = str ''01.01.2024 - 07.01.2024''"
proof -
  let ?cs = "[\<lparr>sha = [], message = str ''fix bug'', date = Some (str ''2024-01-07''), author = None\<rparr>,
    \<lparr>sha = [], message = str ''add feature'', date = Some (str ''2024-01-01''), author = None\<rparr>]"
  have ne: "?cs \<noteq> []" by simp
  have ev: "utcLocaleDateString (date (last ?cs)) @ str '' - '' @ utcLocaleDateString (date (hd ?cs))
            = str ''01.01.2024 - 07.01.2024''"
    by code_simp
  from dateRange_oldest_to_newest [OF ne, of utcLocaleDateString, THEN conjunct1] ev ne show ?thesis
    by (simp only:) simp
qed

section \<open>The projection of the commits\<close>

text \<open>
  C6. \<open>getCommitsForChangelog\<close> returns a list of the same length, in the same order, whose
  elements have the sha of the raw commit, the first line of its message, the author date
  if there is one (a date that is not \<open>undefined\<close> and not empty) and the committer date
  otherwise, and the author name.
\<close>

theorem getCommitsForChangelog_projection:
  "length (getCommitsForChangelog commits) = length commits
   \<and> getCommitsForChangelog commits =
       map (\<lambda>c. \<lparr>sha = raw_sha c,
                 message = takeWhile (\<lambda>x. x \<noteq> nl) (raw_message c),
                 date = (if truthy (author_date c) then author_date c else committer_date c),
                 author = author_name c\<rparr>) commits"
proof -
  have "first (split s nl) = takeWhile (\<lambda>x. x \<noteq> nl) s" for s
    using split_first[of s nl] by (auto simp: first_def at_def)
  then show ?thesis
    by (simp add: getCommitsForChangelog_def orElse_def)
qed

section \<open>Running actions\<close>

lemma bind_Inr: "m t = (Inr x, t') \<Longrightarrow> bind m f t = f x t'"
  by (simp add: bind_def)

lemma call_run: "call f m t = m (t @ [Invoke f])"
  by (simp add: call_def bind_def emit_def)

section \<open>The failures of the summarizer\<close>

lemma generate_no_input:
  assumes "commits = None \<or> commits = Some [] \<or> \<not> truthy apiKey"
  shows "\<exists>e. generateChangelogWithAI fmt service commits apiKey repoName t = (Inl e, t)"
  using assms
  by (auto simp: generateChangelogWithAI_def throw_def truthy_def split: option.splits)

lemma generate_request:
  assumes "cs \<noteq> []" and "key \<noteq> []"
  shows "generateChangelogWithAI fmt service (Some cs) (Some key) repoName t =
           (case service t (summarizerRequest fmt cs key) of
              Inl e \<Rightarrow> Inl e
            | Inr None \<Rightarrow> Inl trimOfUndefined
            | Inr (Some s) \<Rightarrow> Inr (trim s),
            t @ [Request (summarizerRequest fmt cs key)])"
  using assms
  by (auto simp: generateChangelogWithAI_def summarizerRequest_def catch_def bind_def send_def
        ret_def throw_def split: sum.splits option.splits)

text \<open>
  C8, as stated, fails: with commits, with a key and with a service that resolves,
  \<open>generateChangelogWithAI\<close> still rejects when the response has no text.
\<close>

theorem summarizer_fails_without_text:
  "isl (fst (generateChangelogWithAI utcLocaleDateString (\<lambda>t r. Inr None)
              (Some [\<lparr>sha = str ''0123456789'', message = str ''fix bug'',
                      date = Some (str ''2024-01-07''), author = None\<rparr>])
              (Some (str ''key'')) (str ''demo'') []))
   \<and> [\<lparr>sha = str ''0123456789'', message = str ''fix bug'',
         date = Some (str ''2024-01-07''), author = None\<rparr>] \<noteq> []
   \<and> truthy (Some (str ''key''))
   \<and> \<not> isl ((\<lambda>t r. Inr None :: jsError + jsstring option) []
              (summarizerRequest utcLocaleDateString
                 [\<lparr>sha = str ''0123456789'', message = str ''fix bug'',
                    date = Some (str ''2024-01-07''), author = None\<rparr>] (str ''key'')))"
  by (simp add: generateChangelogWithAI_def catch_def bind_def send_def throw_def truthy_def
        str_def)

text \<open>
  C8, amended. \<open>generateChangelogWithAI\<close> rejects if and only if the commits are missing or
  empty, the key is missing or empty, the language-model service rejects the request, or
  the response of the service has no text. In the first two cases nothing is sent;
  otherwise exactly one request is sent, whatever the answer, so there is no second
  attempt.
\<close>

theorem summarizer_failures:
  "(isl (fst (generateChangelogWithAI fmt service commits apiKey repoName t)) \<longleftrightarrow>
      commits = None \<or> commits = Some [] \<or> \<not> truthy apiKey
      \<or> (\<exists>cs key. commits = Some cs \<and> apiKey = Some key
            \<and> (isl (service t (summarizerRequest fmt cs key))
                \<or> service t (summarizerRequest fmt cs key) = Inr None)))
   \<and> (commits = None \<or> commits = Some [] \<or> \<not> truthy apiKey \<longrightarrow>
        snd (generateChangelogWithAI fmt service commits apiKey repoName t) = t)
   \<and> (\<forall>cs key. commits = Some cs \<and> cs \<noteq> [] \<and> apiKey = Some key \<and> key \<noteq> [] \<longrightarrow>
        snd (generateChangelogWithAI fmt service commits apiKey repoName t)
          = t @ [Request (summarizerRequest fmt cs key)])"
proof (cases "commits = None \<or> commits = Some [] \<or> \<not> truthy apiKey")
  case True
  from generate_no_input[OF True] obtain e
    where "generateChangelogWithAI fmt service commits apiKey repoName t = (Inl e, t)"
    by blast
  with True show ?thesis by (auto simp: truthy_def)
next
  case False
  then obtain cs key where c: "commits = Some cs" "cs \<noteq> []" "apiKey = Some key" "key \<noteq> []"
    by (auto simp: truthy_def split: option.splits)
  have "isl (case r of Inl e \<Rightarrow> Inl e | Inr None \<Rightarrow> Inl trimOfUndefined
               | Inr (Some s) \<Rightarrow> Inr (trim s))
        \<longleftrightarrow> isl r \<or> r = Inr None" for r :: "jsError + jsstring option"
    by (cases r) (auto split: option.splits)
  with False c generate_request[OF c(2) c(4), of fmt service repoName t] show ?thesis
    by (simp add: truthy_def)
qed

text \<open>
  The theorem at an empty list of commits, where nothing is sent, and at a service that
  rejects, where one request is sent.
\<close>

theorem summarizer_failures_witness:
  "isl (fst (generateChangelogWithAI utcLocaleDateString (\<lambda>t r. Inr (Some (str ''### x'')))
              (Some []) (Some (str ''key'')) (str ''demo'') []))
   \<and> snd (generateChangelogWithAI utcLocaleDateString (\<lambda>t r. Inr (Some (str ''### x'')))
              (Some []) (Some (str ''key'')) (str ''demo'') []) = []
   \<and> isl (fst (generateChangelogWithAI utcLocaleDateString (\<lambda>t r. Inl (newError ''unavailable''))
              (Some [\<lparr>sha = str ''0123456789'', message = str ''fix bug'',
                      date = Some (str ''2024-01-07''), author = None\<rparr>])
              (Some (str ''key'')) (str ''demo'') []))
   \<and> length (snd (generateChangelogWithAI utcLocaleDateString (\<lambda>t r. Inl (newError ''unavailable''))
              (Some [\<lparr>sha = str ''0123456789'', message = str ''fix bug'',
                      date = Some (str ''2024-01-07''), author = None\<rparr>])
              (Some (str ''key'')) (str ''demo'') [])) = 1"
proof -
  let ?c = "\<lparr>sha = str ''0123456789'', message = str ''fix bug'',
             date = Some (str ''2024-01-07''), author = None\<rparr>"
  have k: "str ''key'' \<noteq> []" by (simp add: str_def)
  have a: "isl (fst (generateChangelogWithAI utcLocaleDateString (\<lambda>t r. Inr (Some (str ''### x'')))
              (Some []) (Some (str ''key'')) (str ''demo'') []))
     \<and> snd (generateChangelogWithAI utcLocaleDateString (\<lambda>t r. Inr (Some (str ''### x'')))
              (Some []) (Some (str ''key'')) (str ''demo'') []) = []"
    using summarizer_failures [of utcLocaleDateString "\<lambda>t r. Inr (Some (str ''### x''))" "Some []"
        "Some (str ''key'')" "str ''demo''" "[]"]
    by simp
  have b: "isl (fst (generateChangelogWithAI utcLocaleDateString (\<lambda>t r. Inl (newError ''unavailable''))
              (Some [?c]) (Some (str ''key'')) (str ''demo'') []))
     \<and> length (snd (generateChangelogWithAI utcLocaleDateString (\<lambda>t r. Inl (newError ''unavailable''))
              (Some [?c]) (Some (str ''key'')) (str ''demo'') [])) = 1"
    using k summarizer_failures [of utcLocaleDateString "\<lambda>t r. Inl (newError ''unavailable'')"
        "Some [?c]" "Some (str ''key'')" "str ''demo''" "[]"]
    by simp
  from a b show ?thesis by blast
qed

section \<open>The early exits of the run\<close>

lemma getFileContent_resolves:
  assumes "getFileContent sv pf owner repo path branch t = (Inr fc, t')"
  shows "t' = t @ [Request (GetContent owner repo path branch)]"
  using assms
  by (auto simp: getFileContent_def catch_def bind_def send_def ret_def coreError_def emit_def
        throw_def split: sum.splits contentData.splits if_splits)

lemma getRecentCommits_resolves:
  assumes "listCommits sv t (ListCommits owner repo branch count) = Inr commits"
  shows "getRecentCommits sv owner repo branch count t =
           (Inr commits, t @ [Request (ListCommits owner repo branch count)])"
  using assms by (simp add: getRecentCommits_def catch_def send_def)

text \<open>
  C9. Let both credentials be present. If the hosting API lists no commits, the run ends
  after that request: no function of the summarizer, the merger or the publisher is
  called and nothing is reported as failed. If commits are listed, the summarizer and the
  read of the changelog succeed and the merger returns \<open>hasChanges = False\<close>, the run ends
  with the call of the merger: no branch is created, no file written, no pull request
  opened and nothing is reported as failed.
\<close>

theorem run_benign_exits:
  assumes token: "truthy (GITHUB_TOKEN env)"
    and key: "GOOGLE_API_KEY env = Some key" "key \<noteq> []"
    and repo: "getRepoInfo env = (owner, repo)"
    and branch: "targetBranch = orDefault (orElse (INPUT_BRANCH env) (GITHUB_BASE_REF env)) (str ''main'')"
    and count: "commitCount = parseInt pf (orDefault (INPUT_COMMIT_COUNT env) (str ''10''))"
    and fetch: "listCommits sv (t @ [Invoke GetRecentCommits])
                  (ListCommits owner repo targetBranch commitCount) = Inr commits"
    and fetched: "fetched = t @ [Invoke GetRecentCommits,
                                  Request (ListCommits owner repo targetBranch commitCount)]"
    and summarized: "summarized = fetched @ [Invoke GetCommitsForChangelog, Invoke GenerateChangelogWithAI,
                       Request (summarizerRequest (toLocaleDateString pf) (getCommitsForChangelog commits) key)]"
    and entry: "entry = formatChangelogEntry (trim reply) (display repo)"
  shows "(commits = [] \<longrightarrow> run sv pf env t = fetched)
       \<and> (commits \<noteq> []
           \<and> generateContent sv (fetched @ [Invoke GetCommitsForChangelog, Invoke GenerateChangelogWithAI])
               (summarizerRequest (toLocaleDateString pf) (getCommitsForChangelog commits) key) = Inr (Some reply)
           \<and> getFileContent sv pf owner repo (str ''CHANGELOG.md'') targetBranch
               (summarized @ [Invoke FormatChangelogEntry, Invoke GetFileContent]) = (Inr fc, read)
           \<and> \<not> hasChanges (updateChangelogFile entry (display repo) (orDefault fc []))
           \<longrightarrow> run sv pf env t =
                 summarized @ [Invoke FormatChangelogEntry, Invoke GetFileContent,
                   Request (GetContent owner repo (str ''CHANGELOG.md'') targetBranch),
                   Invoke (UpdateChangelogFile entry (display repo) (orDefault fc []))])"
proof (intro conjI impI)
  have k: "truthy (GOOGLE_API_KEY env)" using key by (simp add: truthy_def)
  have first: "call GetRecentCommits (getRecentCommits sv owner repo targetBranch commitCount) t
               = (Inr commits, fetched)"
    using getRecentCommits_resolves[OF fetch] fetched by (simp add: call_run)
  {
    assume "commits = []"
    with token k repo first show "run sv pf env t = fetched"
      unfolding run_def Let_def branch[symmetric] count[symmetric]
      by (simp add: catch_def bind_def ret_def)
  }
  {
    assume a: "commits \<noteq> []
           \<and> generateContent sv (fetched @ [Invoke GetCommitsForChangelog, Invoke GenerateChangelogWithAI])
               (summarizerRequest (toLocaleDateString pf) (getCommitsForChangelog commits) key) = Inr (Some reply)
           \<and> getFileContent sv pf owner repo (str ''CHANGELOG.md'') targetBranch
               (summarized @ [Invoke FormatChangelogEntry, Invoke GetFileContent]) = (Inr fc, read)
           \<and> \<not> hasChanges (updateChangelogFile entry (display repo) (orDefault fc []))"
    then have ne: "getCommitsForChangelog commits \<noteq> []"
      by (simp add: getCommitsForChangelog_def)
    have body: "bind (call GetRecentCommits (getRecentCommits sv owner repo targetBranch commitCount)) K t
                = K commits fetched" for K :: "rawCommit list \<Rightarrow> unit action"
      using first by (rule bind_Inr)
    have second: "bind (call GetCommitsForChangelog (ret (getCommitsForChangelog commits))) K fetched
                  = K (getCommitsForChangelog commits) (fetched @ [Invoke GetCommitsForChangelog])"
      for K :: "commit list \<Rightarrow> unit action"
      by (simp add: bind_def call_run ret_def)
    have third: "bind (call GenerateChangelogWithAI
                   (generateChangelogWithAI (toLocaleDateString pf) (generateContent sv)
                      (Some (getCommitsForChangelog commits)) (Some key) (display repo))) K
                   (fetched @ [Invoke GetCommitsForChangelog])
                 = K (trim reply) summarized" for K :: "jsstring \<Rightarrow> unit action"
      using a generate_request[OF ne key(2)] summarized by (simp add: bind_def call_run)
    have fourth: "bind (call FormatChangelogEntry (ret (formatChangelogEntry (trim reply) (display repo)))) K
                    summarized
                  = K entry (summarized @ [Invoke FormatChangelogEntry])"
      for K :: "jsstring \<Rightarrow> unit action"
      by (simp add: bind_def call_run ret_def entry)
    have r: "read = summarized @ [Invoke FormatChangelogEntry, Invoke GetFileContent,
                   Request (GetContent owner repo (str ''CHANGELOG.md'') targetBranch)]"
      using a getFileContent_resolves by fastforce
    have fifth: "bind (call GetFileContent
                         (getFileContent sv pf owner repo (str ''CHANGELOG.md'') targetBranch)) K
                   (summarized @ [Invoke FormatChangelogEntry])
                 = K fc read" for K :: "jsstring option \<Rightarrow> unit action"
      using a by (simp add: bind_def call_run)
    have sixth: "bind (call (UpdateChangelogFile entry (display repo) (orDefault fc []))
                   (ret (updateChangelogFile entry (display repo) (orDefault fc [])))) K read
                 = K (updateChangelogFile entry (display repo) (orDefault fc []))
                    (read @ [Invoke (UpdateChangelogFile entry (display repo) (orDefault fc []))])"
      for K :: "mergeResult \<Rightarrow> unit action"
      by (simp add: bind_def call_run ret_def)
    show "run sv pf env t =
                 summarized @ [Invoke FormatChangelogEntry, Invoke GetFileContent,
                   Request (GetContent owner repo (str ''CHANGELOG.md'') targetBranch),
                   Invoke (UpdateChangelogFile entry (display repo) (orDefault fc []))]"
      unfolding run_def Let_def branch[symmetric] count[symmetric]
      using token k repo a key(1)
      by (simp add: catch_def body second third fourth fifth sixth ret_def) (simp add: r)
  }
qed

text \<open>
  The theorem at a hosting API that lists no commits, and at one whose changelog already
  has the date range of the new entry.
\<close>

theorem run_benign_exits_witness:
  "run (exampleServices []
          (str ''## demo - Changelog\<newline>\<newline>### 07.01.2024 - 07.01.2024\<newline>\<newline>- old\<newline>'') (Inr ()))
       examplePlatform exampleEnv []
     = [Invoke GetRecentCommits,
        Request (ListCommits (Some (str ''o'')) (Some (str ''demo'')) (str ''main'') (Some 10))]
   \<and> run (exampleServices [exampleCommit]
          (str ''## demo - Changelog\<newline>\<newline>### 07.01.2024 - 07.01.2024\<newline>\<newline>- old\<newline>'') (Inr ()))
       examplePlatform exampleEnv []
     = [Invoke GetRecentCommits,
        Request (ListCommits (Some (str ''o'')) (Some (str ''demo'')) (str ''main'') (Some 10)),
        Invoke GetCommitsForChangelog, Invoke GenerateChangelogWithAI,
        Request (summarizerRequest utcLocaleDateString (getCommitsForChangelog [exampleCommit])
                   (str ''key'')),
        Invoke FormatChangelogEntry, Invoke GetFileContent,
        Request (GetContent (Some (str ''o'')) (Some (str ''demo'')) (str ''CHANGELOG.md'') (str ''main'')),
        Invoke (UpdateChangelogFile (str ''### 07.01.2024 - 07.01.2024\<newline>\<newline>- did stuff'')
                  (str ''demo'')
                  (str ''## demo - Changelog\<newline>\<newline>### 07.01.2024 - 07.01.2024\<newline>\<newline>- old\<newline>''))]"
proof -
  let ?doc = "str ''## demo - Changelog\<newline>\<newline>### 07.01.2024 - 07.01.2024\<newline>\<newline>- old\<newline>''"
  let ?reply = "str ''### 07.01.2024 - 07.01.2024\<newline>\<newline>- did stuff\<newline>''"
  let ?entry = "str ''### 07.01.2024 - 07.01.2024\<newline>\<newline>- did stuff''"
  let ?list = "ListCommits (Some (str ''o'')) (Some (str ''demo'')) (str ''main'') (Some 10)"
  let ?ask = "summarizerRequest utcLocaleDateString (getCommitsForChangelog [exampleCommit]) (str ''key'')"
  have token: "truthy (GITHUB_TOKEN exampleEnv)" by code_simp
  have key: "GOOGLE_API_KEY exampleEnv = Some (str ''key'')" "str ''key'' \<noteq> []" by code_simp+
  have repo: "getRepoInfo exampleEnv = (Some (str ''o''), Some (str ''demo''))" by code_simp
  have branch: "str ''main'' = orDefault (orElse (INPUT_BRANCH exampleEnv) (GITHUB_BASE_REF exampleEnv)) (str ''main'')"
    by code_simp
  have count: "Some 10 = parseInt examplePlatform (orDefault (INPUT_COMMIT_COUNT exampleEnv) (str ''10''))"
    by code_simp
  have fmt: "toLocaleDateString examplePlatform = utcLocaleDateString"
    by (simp add: examplePlatform_def)
  have entry: "?entry = formatChangelogEntry (trim ?reply) (display (Some (str ''demo'')))"
    by code_simp
  have disp: "display (Some (str ''demo'')) = str ''demo''" by (simp add: display_def)
  have nochange: "\<not> hasChanges (updateChangelogFile ?entry (str ''demo'') ?doc)"
    by code_simp
  have fetch: "listCommits (exampleServices cs ?doc (Inr ())) ([] @ [Invoke GetRecentCommits]) ?list = Inr cs"
    for cs
    by (simp add: exampleServices_def)
  have gen: "generateContent (exampleServices cs ?doc (Inr ())) tr rq = Inr (Some ?reply)" for cs tr rq
    by (simp add: exampleServices_def)
  have fileRead: "getFileContent (exampleServices cs ?doc (Inr ())) examplePlatform (Some (str ''o''))
                (Some (str ''demo'')) (str ''CHANGELOG.md'') (str ''main'') tr
              = (Inr (Some ?doc), tr @ [Request (GetContent (Some (str ''o'')) (Some (str ''demo''))
                   (str ''CHANGELOG.md'') (str ''main''))])" for cs tr
    by (simp add: getFileContent_def exampleServices_def examplePlatform_def catch_def bind_def
          send_def ret_def)
  have od: "orDefault (Some ?doc) [] = ?doc" by code_simp
  note inst = run_benign_exits [OF token key repo branch count fetch refl refl entry]
  have zero: "run (exampleServices [] ?doc (Inr ())) examplePlatform exampleEnv []
              = [Invoke GetRecentCommits, Request ?list]"
    using inst [of "[]"] by simp
  have ne: "[exampleCommit] \<noteq> []" by simp
  have "run (exampleServices [exampleCommit] ?doc (Inr ())) examplePlatform exampleEnv [] =
          ([] @ [Invoke GetRecentCommits, Request ?list])
          @ [Invoke GetCommitsForChangelog, Invoke GenerateChangelogWithAI, Request ?ask]
          @ [Invoke FormatChangelogEntry, Invoke GetFileContent,
             Request (GetContent (Some (str ''o'')) (Some (str ''demo'')) (str ''CHANGELOG.md'') (str ''main'')),
             Invoke (UpdateChangelogFile ?entry (display (Some (str ''demo''))) (orDefault (Some ?doc) []))]"
    using inst [of "[exampleCommit]" "Some ?doc"] ne gen fileRead nochange
    by (simp only: fmt disp od append_assoc) simp
  with zero show ?thesis by (simp only: disp od) simp
qed

section \<open>Creating the branch\<close>

text \<open>What \<open>createBranch\<close> does when the base ref is read and creating the ref is rejected.\<close>

lemma createBranch_handler:
  assumes base: "getRef sv t (GetRef owner repo (str ''heads/'' @ baseBranch)) = Inr baseSha"
    and create: "createRef sv (t @ [Request (GetRef owner repo (str ''heads/'' @ baseBranch))])
                   (CreateRef owner repo (str ''refs/heads/'' @ branchName) baseSha) = Inl e"
  shows "createBranch sv owner repo branchName baseBranch t =
           (if err_status e = Some 422
            then (getRef sv (t @ [Request (GetRef owner repo (str ''heads/'' @ baseBranch)),
                                  Request (CreateRef owner repo (str ''refs/heads/'' @ branchName) baseSha)])
                    (GetRef owner repo (str ''heads/'' @ branchName)),
                  t @ [Request (GetRef owner repo (str ''heads/'' @ baseBranch)),
                       Request (CreateRef owner repo (str ''refs/heads/'' @ branchName) baseSha),
                       Request (GetRef owner repo (str ''heads/'' @ branchName))])
            else (Inl e,
                  t @ [Request (GetRef owner repo (str ''heads/'' @ baseBranch)),
                       Request (CreateRef owner repo (str ''refs/heads/'' @ branchName) baseSha),
                       CoreError (str ''Error creating branch: '' @ err_message e)]))"
  using base create
  by (simp add: createBranch_def catch_def bind_def send_def coreError_def emit_def throw_def)

text \<open>An error of reading the base ref takes the same handler.\<close>

lemma createBranch_base_ref_error:
  assumes "getRef sv t (GetRef owner repo (str ''heads/'' @ baseBranch)) = Inl e"
    and "err_status e \<noteq> Some 422"
  shows "createBranch sv owner repo branchName baseBranch t =
           (Inl e, t @ [Request (GetRef owner repo (str ''heads/'' @ baseBranch)),
                        CoreError (str ''Error creating branch: '' @ err_message e)])"
  using assms
  by (simp add: createBranch_def catch_def bind_def send_def coreError_def emit_def throw_def)

text \<open>
  When the merger has changes and \<open>createBranch\<close> rejects, the run ends there with
  \<open>core.setFailed\<close>: no file is written and no pull request is opened.
\<close>

lemma run_aborts_when_createBranch_fails:
  assumes token: "truthy (GITHUB_TOKEN env)"
    and key: "GOOGLE_API_KEY env = Some key" "key \<noteq> []"
    and repo: "getRepoInfo env = (owner, repo)"
    and branch: "targetBranch = orDefault (orElse (INPUT_BRANCH env) (GITHUB_BASE_REF env)) (str ''main'')"
    and count: "commitCount = parseInt pf (orDefault (INPUT_COMMIT_COUNT env) (str ''10''))"
    and fetch: "listCommits sv (t @ [Invoke GetRecentCommits])
                  (ListCommits owner repo targetBranch commitCount) = Inr commits"
    and fetched: "fetched = t @ [Invoke GetRecentCommits,
                                  Request (ListCommits owner repo targetBranch commitCount)]"
    and summarized: "summarized = fetched @ [Invoke GetCommitsForChangelog, Invoke GenerateChangelogWithAI,
                       Request (summarizerRequest (toLocaleDateString pf) (getCommitsForChangelog commits) key)]"
    and entry: "entry = formatChangelogEntry (trim reply) (display repo)"
    and some: "commits \<noteq> []"
    and gen: "generateContent sv (fetched @ [Invoke GetCommitsForChangelog, Invoke GenerateChangelogWithAI])
               (summarizerRequest (toLocaleDateString pf) (getCommitsForChangelog commits) key) = Inr (Some reply)"
    and fileRead: "getFileContent sv pf owner repo (str ''CHANGELOG.md'') targetBranch
               (summarized @ [Invoke FormatChangelogEntry, Invoke GetFileContent]) = (Inr fc, read)"
    and changed: "hasChanges (updateChangelogFile entry (display repo) (orDefault fc []))"
    and name: "branchName = str ''changelog/update-''
                 @ filter (\<lambda>c. c \<noteq> of_char CHR ''-'') (first (split (toISOString pf) (of_char CHR ''T'')))"
    and failing: "createBranch sv owner repo branchName targetBranch
                    (read @ [Invoke (UpdateChangelogFile entry (display repo) (orDefault fc [])),
                             Invoke CreateBranch]) = (Inl e, failed)"
  shows "run sv pf env t = failed @ [SetFailed (str ''Action failed with error: '' @ err_message e)]"
proof -
  have k: "truthy (GOOGLE_API_KEY env)" using key by (simp add: truthy_def)
  have ne: "getCommitsForChangelog commits \<noteq> []"
    using some by (simp add: getCommitsForChangelog_def)
  have first: "bind (call GetRecentCommits (getRecentCommits sv owner repo targetBranch commitCount)) K t
                = K commits fetched" for K :: "rawCommit list \<Rightarrow> unit action"
    using getRecentCommits_resolves[OF fetch] fetched by (simp add: bind_def call_run)
  have second: "bind (call GetCommitsForChangelog (ret (getCommitsForChangelog commits))) K fetched
                  = K (getCommitsForChangelog commits) (fetched @ [Invoke GetCommitsForChangelog])"
    for K :: "commit list \<Rightarrow> unit action"
    by (simp add: bind_def call_run ret_def)
  have third: "bind (call GenerateChangelogWithAI
                   (generateChangelogWithAI (toLocaleDateString pf) (generateContent sv)
                      (Some (getCommitsForChangelog commits)) (Some key) (display repo))) K
                   (fetched @ [Invoke GetCommitsForChangelog])
                 = K (trim reply) summarized" for K :: "jsstring \<Rightarrow> unit action"
    using gen generate_request[OF ne key(2)] summarized by (simp add: bind_def call_run)
  have fourth: "bind (call FormatChangelogEntry (ret (formatChangelogEntry (trim reply) (display repo)))) K
                    summarized
                  = K entry (summarized @ [Invoke FormatChangelogEntry])"
    for K :: "jsstring \<Rightarrow> unit action"
    by (simp add: bind_def call_run ret_def entry)
  have fifth: "bind (call GetFileContent
                         (getFileContent sv pf owner repo (str ''CHANGELOG.md'') targetBranch)) K
                   (summarized @ [Invoke FormatChangelogEntry])
                 = K fc read" for K :: "jsstring option \<Rightarrow> unit action"
    using fileRead by (simp add: bind_def call_run)
  have sixth: "bind (call (UpdateChangelogFile entry (display repo) (orDefault fc []))
                   (ret (updateChangelogFile entry (display repo) (orDefault fc [])))) K read
                 = K (updateChangelogFile entry (display repo) (orDefault fc []))
                    (read @ [Invoke (UpdateChangelogFile entry (display repo) (orDefault fc []))])"
    for K :: "mergeResult \<Rightarrow> unit action"
    by (simp add: bind_def call_run ret_def)
  have seventh: "bind (call CreateBranch (createBranch sv owner repo branchName targetBranch)) K
                   (read @ [Invoke (UpdateChangelogFile entry (display repo) (orDefault fc []))])
                 = (Inl e, failed)" for K :: "jsstring \<Rightarrow> unit action"
    using failing by (simp add: bind_def call_run)
  show ?thesis
    unfolding run_def Let_def branch[symmetric] count[symmetric] name[symmetric]
    using token k repo some changed key(1)
    by (simp add: catch_def first second third fourth fifth sixth seventh emit_def)
qed

text \<open>
  C7, as stated, fails: when creating the ref is rejected with status 409, \<open>createBranch\<close>
  rejects with that error.
\<close>

theorem createBranch_rejects_on_409:
  "fst (createBranch (exampleServices [] [] (refExists 409)) (Some (str ''o'')) (Some (str ''demo''))
          (str ''changelog/update-20240101'') (str ''main'') [])
     = Inl \<lparr>err_status = Some 409, err_message = str ''Reference already exists''\<rparr>"
  by (simp add: createBranch_def exampleServices_def refExists_def catch_def bind_def send_def
        coreError_def emit_def throw_def)

text \<open>
  C7, amended. When the base ref is read and creating the ref is rejected with an error
  of status 422, \<open>createBranch\<close> reads the ref of the existing branch and resolves to its
  sha (or rejects with the error of that read). An error of any other status, 409 among
  them, is reported with \<open>core.error\<close> and \<open>createBranch\<close> rejects with it; in a run that
  has come to this call of \<open>createBranch\<close>, the error is then reported with
  \<open>core.setFailed\<close> and nothing else is done: no file is written and no pull request is
  opened.
\<close>

theorem branch_exists_tolerance:
  fixes sv :: services and pf :: platform and env :: processEnv and start :: trace
    and owner repo :: "jsstring option" and baseBranch key reply :: jsstring
    and commits :: "rawCommit list" and fc :: "jsstring option"
  defines "listed \<equiv> ListCommits owner repo baseBranch
                        (parseInt pf (orDefault (INPUT_COMMIT_COUNT env) (str ''10'')))"
    and "ask \<equiv> summarizerRequest (toLocaleDateString pf) (getCommitsForChangelog commits) key"
    and "entry \<equiv> formatChangelogEntry (trim reply) (display repo)"
    and "existing \<equiv> orDefault fc []"
  defines "fetched \<equiv> start @ [Invoke GetRecentCommits, Request listed]"
  defines "summarized \<equiv> fetched @ [Invoke GetCommitsForChangelog, Invoke GenerateChangelogWithAI,
                                      Request ask]"
  assumes base: "getRef sv t (GetRef owner repo (str ''heads/'' @ baseBranch)) = Inr baseSha"
    and create: "createRef sv (t @ [Request (GetRef owner repo (str ''heads/'' @ baseBranch))])
                   (CreateRef owner repo (str ''refs/heads/'' @ branchName) baseSha) = Inl e"
  shows "createBranch sv owner repo branchName baseBranch t =
           (if err_status e = Some 422
            then (getRef sv (t @ [Request (GetRef owner repo (str ''heads/'' @ baseBranch)),
                                  Request (CreateRef owner repo (str ''refs/heads/'' @ branchName) baseSha)])
                    (GetRef owner repo (str ''heads/'' @ branchName)),
                  t @ [Request (GetRef owner repo (str ''heads/'' @ baseBranch)),
                       Request (CreateRef owner repo (str ''refs/heads/'' @ branchName) baseSha),
                       Request (GetRef owner repo (str ''heads/'' @ branchName))])
            else (Inl e,
                  t @ [Request (GetRef owner repo (str ''heads/'' @ baseBranch)),
                       Request (CreateRef owner repo (str ''refs/heads/'' @ branchName) baseSha),
                       CoreError (str ''Error creating branch: '' @ err_message e)]))
       \<and> (err_status e \<noteq> Some 422
          \<and> truthy (GITHUB_TOKEN env) \<and> GOOGLE_API_KEY env = Some key \<and> key \<noteq> []
          \<and> getRepoInfo env = (owner, repo)
          \<and> baseBranch = orDefault (orElse (INPUT_BRANCH env) (GITHUB_BASE_REF env)) (str ''main'')
          \<and> branchName = str ''changelog/update-''
               @ filter (\<lambda>c. c \<noteq> of_char CHR ''-'') (first (split (toISOString pf) (of_char CHR ''T'')))
          \<and> listCommits sv (start @ [Invoke GetRecentCommits]) listed = Inr commits
          \<and> commits \<noteq> []
          \<and> generateContent sv (fetched @ [Invoke GetCommitsForChangelog, Invoke GenerateChangelogWithAI])
                ask = Inr (Some reply)
          \<and> getFileContent sv pf owner repo (str ''CHANGELOG.md'') baseBranch
                (summarized @ [Invoke FormatChangelogEntry, Invoke GetFileContent]) = (Inr fc, read)
          \<and> hasChanges (updateChangelogFile entry (display repo) existing)
          \<and> t = read @ [Invoke (UpdateChangelogFile entry (display repo) existing), Invoke CreateBranch]
          \<longrightarrow> run sv pf env start =
                t @ [Request (GetRef owner repo (str ''heads/'' @ baseBranch)),
                     Request (CreateRef owner repo (str ''refs/heads/'' @ branchName) baseSha),
                     CoreError (str ''Error creating branch: '' @ err_message e),
                     SetFailed (str ''Action failed with error: '' @ err_message e)])"
proof (intro conjI impI)
  note handler = createBranch_handler [OF base create]
  show "createBranch sv owner repo branchName baseBranch t =
           (if err_status e = Some 422
            then (getRef sv (t @ [Request (GetRef owner repo (str ''heads/'' @ baseBranch)),
                                  Request (CreateRef owner repo (str ''refs/heads/'' @ branchName) baseSha)])
                    (GetRef owner repo (str ''heads/'' @ branchName)),
                  t @ [Request (GetRef owner repo (str ''heads/'' @ baseBranch)),
                       Request (CreateRef owner repo (str ''refs/heads/'' @ branchName) baseSha),
                       Request (GetRef owner repo (str ''heads/'' @ branchName))])
            else (Inl e,
                  t @ [Request (GetRef owner repo (str ''heads/'' @ baseBranch)),
                       Request (CreateRef owner repo (str ''refs/heads/'' @ branchName) baseSha),
                       CoreError (str ''Error creating branch: '' @ err_message e)]))"
    by (rule handler)
  assume ctx: "err_status e \<noteq> Some 422
          \<and> truthy (GITHUB_TOKEN env) \<and> GOOGLE_API_KEY env = Some key \<and> key \<noteq> []
          \<and> getRepoInfo env = (owner, repo)
          \<and> baseBranch = orDefault (orElse (INPUT_BRANCH env) (GITHUB_BASE_REF env)) (str ''main'')
          \<and> branchName = str ''changelog/update-''
               @ filter (\<lambda>c. c \<noteq> of_char CHR ''-'') (first (split (toISOString pf) (of_char CHR ''T'')))
          \<and> listCommits sv (start @ [Invoke GetRecentCommits]) listed = Inr commits
          \<and> commits \<noteq> []
          \<and> generateContent sv (fetched @ [Invoke GetCommitsForChangelog, Invoke GenerateChangelogWithAI])
                ask = Inr (Some reply)
          \<and> getFileContent sv pf owner repo (str ''CHANGELOG.md'') baseBranch
                (summarized @ [Invoke FormatChangelogEntry, Invoke GetFileContent]) = (Inr fc, read)
          \<and> hasChanges (updateChangelogFile entry (display repo) existing)
          \<and> t = read @ [Invoke (UpdateChangelogFile entry (display repo) existing), Invoke CreateBranch]"
  then have status: "err_status e \<noteq> Some 422"
    and token: "truthy (GITHUB_TOKEN env)"
    and key: "GOOGLE_API_KEY env = Some key" "key \<noteq> []"
    and repo: "getRepoInfo env = (owner, repo)"
    and branch: "baseBranch = orDefault (orElse (INPUT_BRANCH env) (GITHUB_BASE_REF env)) (str ''main'')"
    and name: "branchName = str ''changelog/update-''
               @ filter (\<lambda>c. c \<noteq> of_char CHR ''-'') (first (split (toISOString pf) (of_char CHR ''T'')))"
    and fetch: "listCommits sv (start @ [Invoke GetRecentCommits]) listed = Inr commits"
    and some: "commits \<noteq> []"
    and gen: "generateContent sv (fetched @ [Invoke GetCommitsForChangelog, Invoke GenerateChangelogWithAI])
                ask = Inr (Some reply)"
    and fileRead: "getFileContent sv pf owner repo (str ''CHANGELOG.md'') baseBranch
                (summarized @ [Invoke FormatChangelogEntry, Invoke GetFileContent]) = (Inr fc, read)"
    and changed: "hasChanges (updateChangelogFile entry (display repo) existing)"
    and invoked: "t = read @ [Invoke (UpdateChangelogFile entry (display repo) existing), Invoke CreateBranch]"
    by blast+
  have failing: "createBranch sv owner repo branchName baseBranch
                   (read @ [Invoke (UpdateChangelogFile entry (display repo) (orDefault fc [])),
                            Invoke CreateBranch])
                 = (Inl e, t @ [Request (GetRef owner repo (str ''heads/'' @ baseBranch)),
                      Request (CreateRef owner repo (str ''refs/heads/'' @ branchName) baseSha),
                      CoreError (str ''Error creating branch: '' @ err_message e)])"
    using handler status invoked unfolding existing_def by simp
  have fetch': "listCommits sv (start @ [Invoke GetRecentCommits])
                  (ListCommits owner repo baseBranch
                     (parseInt pf (orDefault (INPUT_COMMIT_COUNT env) (str ''10'')))) = Inr commits"
    using fetch unfolding listed_def .
  have fetched': "fetched = start @ [Invoke GetRecentCommits,
                     Request (ListCommits owner repo baseBranch
                       (parseInt pf (orDefault (INPUT_COMMIT_COUNT env) (str ''10''))))]"
    unfolding fetched_def listed_def by (rule refl)
  have summarized': "summarized = fetched @ [Invoke GetCommitsForChangelog, Invoke GenerateChangelogWithAI,
                       Request (summarizerRequest (toLocaleDateString pf) (getCommitsForChangelog commits) key)]"
    unfolding summarized_def ask_def by (rule refl)
  have entry': "entry = formatChangelogEntry (trim reply) (display repo)"
    unfolding entry_def by (rule refl)
  have gen': "generateContent sv (fetched @ [Invoke GetCommitsForChangelog, Invoke GenerateChangelogWithAI])
                (summarizerRequest (toLocaleDateString pf) (getCommitsForChangelog commits) key) = Inr (Some reply)"
    using gen unfolding ask_def .
  have changed': "hasChanges (updateChangelogFile entry (display repo) (orDefault fc []))"
    using changed unfolding existing_def .
  have "run sv pf env start =
       (t @ [Request (GetRef owner repo (str ''heads/'' @ baseBranch)),
             Request (CreateRef owner repo (str ''refs/heads/'' @ branchName) baseSha),
             CoreError (str ''Error creating branch: '' @ err_message e)])
       @ [SetFailed (str ''Action failed with error: '' @ err_message e)]"
    by (rule run_aborts_when_createBranch_fails [OF token key repo branch refl fetch' fetched'
          summarized' entry' some gen' fileRead changed' name failing])
  then show "run sv pf env start =
                t @ [Request (GetRef owner repo (str ''heads/'' @ baseBranch)),
                     Request (CreateRef owner repo (str ''refs/heads/'' @ branchName) baseSha),
                     CoreError (str ''Error creating branch: '' @ err_message e),
                     SetFailed (str ''Action failed with error: '' @ err_message e)]"
    by simp
qed

text \<open>
  The theorem at the status 422, where the result is the tip of the existing branch, and
  in a run whose creation of the ref is rejected with the status 409.
\<close>

theorem branch_exists_tolerance_witness:
  "createBranch (exampleServices [] [] (refExists 422)) (Some (str ''o'')) (Some (str ''demo''))
          (str ''changelog/update-20240108'') (str ''main'') []
     = (Inr (str ''bbb''),
        [Request (GetRef (Some (str ''o'')) (Some (str ''demo'')) (str ''heads/main'')),
         Request (CreateRef (Some (str ''o'')) (Some (str ''demo''))
                    (str ''refs/heads/changelog/update-20240108'') (str ''aaa'')),
         Request (GetRef (Some (str ''o'')) (Some (str ''demo''))
                    (str ''heads/changelog/update-20240108''))])
   \<and> run (exampleServices [exampleCommit]
             (str ''## demo - Changelog\<newline>\<newline>### 01.01.2024 - 06.01.2024\<newline>\<newline>- old\<newline>'')
             (refExists 409))
         examplePlatform exampleEnv []
     = [Invoke GetRecentCommits,
        Request (ListCommits (Some (str ''o'')) (Some (str ''demo'')) (str ''main'') (Some 10)),
        Invoke GetCommitsForChangelog, Invoke GenerateChangelogWithAI,
        Request (summarizerRequest utcLocaleDateString (getCommitsForChangelog [exampleCommit])
                   (str ''key'')),
        Invoke FormatChangelogEntry, Invoke GetFileContent,
        Request (GetContent (Some (str ''o'')) (Some (str ''demo'')) (str ''CHANGELOG.md'') (str ''main'')),
        Invoke (UpdateChangelogFile (str ''### 07.01.2024 - 07.01.2024\<newline>\<newline>- did stuff'')
                  (str ''demo'')
                  (str ''## demo - Changelog\<newline>\<newline>### 01.01.2024 - 06.01.2024\<newline>\<newline>- old\<newline>'')),
        Invoke CreateBranch,
        Request (GetRef (Some (str ''o'')) (Some (str ''demo'')) (str ''heads/main'')),
        Request (CreateRef (Some (str ''o'')) (Some (str ''demo''))
                   (str ''refs/heads/changelog/update-20240108'') (str ''aaa'')),
        CoreError (str ''Error creating branch: Reference already exists''),
        SetFailed (str ''Action failed with error: Reference already exists'')]"
proof -
  let ?doc = "str ''## demo - Changelog\<newline>\<newline>### 01.01.2024 - 06.01.2024\<newline>\<newline>- old\<newline>''"
  let ?reply = "str ''### 07.01.2024 - 07.01.2024\<newline>\<newline>- did stuff\<newline>''"
  let ?entry = "str ''### 07.01.2024 - 07.01.2024\<newline>\<newline>- did stuff''"
  let ?o = "Some (str ''o'')" and ?r = "Some (str ''demo'')"
  let ?name = "str ''changelog/update-20240108''"
  let ?list = "ListCommits ?o ?r (str ''main'') (Some 10)"
  let ?ask = "summarizerRequest utcLocaleDateString (getCommitsForChangelog [exampleCommit]) (str ''key'')"
  let ?read = "[Invoke GetRecentCommits, Request ?list, Invoke GetCommitsForChangelog,
                Invoke GenerateChangelogWithAI, Request ?ask, Invoke FormatChangelogEntry,
                Invoke GetFileContent,
                Request (GetContent ?o ?r (str ''CHANGELOG.md'') (str ''main''))]"
  let ?t = "?read @ [Invoke (UpdateChangelogFile ?entry (str ''demo'') ?doc), Invoke CreateBranch]"
  have main: "str ''heads/'' @ str ''main'' = str ''heads/main''"
    and refs: "str ''refs/heads/'' @ ?name = str ''refs/heads/changelog/update-20240108''"
    and heads: "str ''heads/'' @ ?name = str ''heads/changelog/update-20240108''"
    and other: "str ''heads/changelog/update-20240108'' \<noteq> str ''heads/main''"
    and err: "str ''Error creating branch: '' @ str ''Reference already exists''
              = str ''Error creating branch: Reference already exists''"
    and failed: "str ''Action failed with error: '' @ str ''Reference already exists''
              = str ''Action failed with error: Reference already exists''"
    by code_simp+
  have base: "getRef (exampleServices cs d c) tr (GetRef ?o ?r (str ''heads/'' @ str ''main''))
              = Inr (str ''aaa'')" for cs d c tr
    by (simp add: exampleServices_def main)
  have create: "createRef (exampleServices cs d (refExists code)) tr rq
                = Inl \<lparr>err_status = Some code, err_message = str ''Reference already exists''\<rparr>"
    for cs d code tr rq
    by (simp add: exampleServices_def refExists_def)
  have tip: "getRef (exampleServices cs d c) tr (GetRef ?o ?r (str ''heads/'' @ ?name)) = Inr (str ''bbb'')"
    for cs d c tr
    using other by (simp add: exampleServices_def heads)
  have exists: "createBranch (exampleServices [] [] (refExists 422)) ?o ?r ?name (str ''main'') []
                = (Inr (str ''bbb''),
                   [Request (GetRef ?o ?r (str ''heads/main'')),
                    Request (CreateRef ?o ?r (str ''refs/heads/changelog/update-20240108'') (str ''aaa'')),
                    Request (GetRef ?o ?r (str ''heads/changelog/update-20240108''))])"
    using branch_exists_tolerance [where branchName = ?name and e = "\<lparr>err_status = Some 422,
             err_message = str ''Reference already exists''\<rparr>",
        OF base [of "[]" "[]" "refExists 422" "[]"] create [of "[]" "[]" 422]] tip
    by (simp add: main refs heads)
  have token: "truthy (GITHUB_TOKEN exampleEnv)" by code_simp
  have key: "GOOGLE_API_KEY exampleEnv = Some (str ''key'')" "str ''key'' \<noteq> []" by code_simp+
  have repo: "getRepoInfo exampleEnv = (?o, ?r)" by code_simp
  have branch: "str ''main'' = orDefault (orElse (INPUT_BRANCH exampleEnv) (GITHUB_BASE_REF exampleEnv)) (str ''main'')"
    by code_simp
  have name: "?name = str ''changelog/update-''
               @ filter (\<lambda>c. c \<noteq> of_char CHR ''-'')
                   (first (split (toISOString examplePlatform) (of_char CHR ''T'')))"
    by code_simp
  have count: "parseInt examplePlatform (orDefault (INPUT_COMMIT_COUNT exampleEnv) (str ''10'')) = Some 10"
    by code_simp
  have fmt: "toLocaleDateString examplePlatform = utcLocaleDateString"
    by (simp add: examplePlatform_def)
  have entry: "formatChangelogEntry (trim ?reply) (str ''demo'') = ?entry"
    by code_simp
  have disp: "display ?r = str ''demo''" by (simp add: display_def)
  have od: "orDefault (Some ?doc) [] = ?doc" by code_simp
  have changed: "hasChanges (updateChangelogFile ?entry (str ''demo'') ?doc)"
    by code_simp
  have fetch: "listCommits (exampleServices cs d c) tr rq = Inr cs" for cs d c tr rq
    by (simp add: exampleServices_def)
  have gen: "generateContent (exampleServices cs d c) tr rq = Inr (Some ?reply)" for cs d c tr rq
    by (simp add: exampleServices_def)
  have fileRead: "getFileContent (exampleServices cs d c) examplePlatform ?o ?r
                (str ''CHANGELOG.md'') (str ''main'') tr
              = (Inr (Some d), tr @ [Request (GetContent ?o ?r (str ''CHANGELOG.md'') (str ''main''))])"
    for cs d c tr
    by (simp add: getFileContent_def exampleServices_def examplePlatform_def catch_def bind_def
          send_def ret_def)
  have ne: "[exampleCommit] \<noteq> []" by simp
  note inst = branch_exists_tolerance [where branchName = ?name and env = exampleEnv
        and key = "str ''key''" and pf = examplePlatform and start = "[]"
        and commits = "[exampleCommit]" and reply = ?reply and fc = "Some ?doc" and read = ?read
        and e = "\<lparr>err_status = Some 409, err_message = str ''Reference already exists''\<rparr>",
        OF base [of "[exampleCommit]" ?doc "refExists 409" ?t]
           create [of "[exampleCommit]" ?doc 409]]
  have "run (exampleServices [exampleCommit] ?doc (refExists 409)) examplePlatform exampleEnv []
        = ?t @ [Request (GetRef ?o ?r (str ''heads/'' @ str ''main'')),
                Request (CreateRef ?o ?r (str ''refs/heads/'' @ ?name) (str ''aaa'')),
                CoreError (str ''Error creating branch: '' @ err_message
                   \<lparr>err_status = Some 409, err_message = str ''Reference already exists''\<rparr>),
                SetFailed (str ''Action failed with error: '' @ err_message
                   \<lparr>err_status = Some 409, err_message = str ''Reference already exists''\<rparr>)]"
    apply (rule inst [THEN conjunct2, THEN mp])
    apply (intro conjI)
    subgoal by simp
    subgoal by (rule token)
    subgoal by (rule key)
    subgoal by (rule key)
    subgoal by (rule repo)
    subgoal by (rule branch)
    subgoal by (rule name)
    subgoal by (rule fetch)
    subgoal by (rule ne)
    subgoal by (rule gen)
    subgoal by (simp add: fileRead count fmt)
    subgoal by (simp only: entry disp od changed)
    subgoal by (simp only: entry disp od)
    done
  with exists show ?thesis
    by (simp add: main refs err failed)
qed

section \<open>Collapsing line feeds\<close>

lemma drop_takeWhile_len: "drop (length (takeWhile P xs)) xs = dropWhile P xs"
  by (induction xs) auto

lemma collapse_no_leading:
  "takeWhile (\<lambda>x. x = nl) s = [] \<Longrightarrow> takeWhile (\<lambda>x. x = nl) (collapseNewlines s) = []"
  by (cases s) (auto simp: Let_def split: if_splits)

lemma takeWhile_dropWhile_nil: "takeWhile P (dropWhile P xs) = []"
  by (induction xs) auto

lemma collapse_leading:
  "takeWhile (\<lambda>x. x = nl) (collapseNewlines s) =
     (if 3 \<le> length (takeWhile (\<lambda>x. x = nl) s) then [nl, nl] else takeWhile (\<lambda>x. x = nl) s)"
proof (induction s)
  case Nil
  then show ?case by simp
next
  case (Cons c cs)
  let ?n = "length (takeWhile (\<lambda>x. x = nl) (c # cs))"
  show ?case
  proof (cases "3 \<le> ?n")
    case True
    have "takeWhile (\<lambda>x. x = nl) (collapseNewlines (drop ?n (c # cs))) = []"
      by (rule collapse_no_leading) (simp only: drop_takeWhile_len takeWhile_dropWhile_nil)
    with True show ?thesis by (simp add: Let_def)
  next
    case False
    with Cons show ?thesis by (auto simp: Let_def split: if_splits)
  qed
qed

text \<open>
  C10. Collapsing every run of three or more line feeds to two line feeds is idempotent:
  doing it twice gives the same text as doing it once.
\<close>

theorem collapseNewlines_idempotent:
  "collapseNewlines (collapseNewlines s) = collapseNewlines s"
proof (induction s rule: collapseNewlines.induct)
  case 1
  then show ?case by simp
next
  case (2 c cs)
  let ?n = "length (takeWhile (\<lambda>x. x = nl) (c # cs))"
  show ?case
  proof (cases "3 \<le> ?n")
    case True
    let ?r = "collapseNewlines (drop ?n (c # cs))"
    have lead: "takeWhile (\<lambda>x. x = nl) ?r = []"
      by (rule collapse_no_leading) (simp only: drop_takeWhile_len takeWhile_dropWhile_nil)
    have ih: "collapseNewlines ?r = ?r"
      using 2(1)[OF refl True] .
    have "collapseNewlines (nl # nl # ?r) = nl # nl # collapseNewlines ?r"
      using lead by (simp add: Let_def)
    with True ih show ?thesis by (simp add: Let_def)
  next
    case False
    have ih: "collapseNewlines (collapseNewlines cs) = collapseNewlines cs"
      using 2(2)[OF refl False] .
    have "length (takeWhile (\<lambda>x. x = nl) (c # collapseNewlines cs)) < 3"
      using False by (auto simp: collapse_leading split: if_splits)
    then have "collapseNewlines (c # collapseNewlines cs) = c # collapseNewlines (collapseNewlines cs)"
      by (simp add: Let_def)
    with False ih show ?thesis by (simp add: Let_def)
  qed
qed

end
